theory Spec2Isabelle
  imports Main "HOL-Library.Sublist" "HOL-Library.AList"
begin

section \<open>JavaScript values\<close>

text \<open>
  The handlers of \<^verbatim>\<open>src/index.ts\<close> work on untyped JSON (\<^verbatim>\<open>req.body\<close>,
  \<^verbatim>\<open>response.data\<close> are \<^verbatim>\<open>any\<close>), so the model carries JavaScript values.
  A number is identified with its canonical rendering (what \<^verbatim>\<open>String(n)\<close> gives): the
  handlers never compute with numbers, they only test them for truthiness and print them.
  An object is the list of its own properties in insertion order (the keys are distinct;
  a lookup takes the first occurrence of a key).
  Strings are character lists; the only string operations of the source are
  concatenation, comparison, \<^verbatim>\<open>toLowerCase\<close> and \<^verbatim>\<open>includes\<close>.
\<close>

datatype json =
    JUndefined
  | JNull
  | JBool bool
  | JNum string
  | JStr string
  | JArr "json list"
  | JObj "(string \<times> json) list"

text \<open>What \<^verbatim>\<open>if (x)\<close>, \<^verbatim>\<open>!x\<close>, \<^verbatim>\<open>x || y\<close> and \<^verbatim>\<open>x && y\<close> test.\<close>

fun truthy :: "json \<Rightarrow> bool" where
  "truthy JUndefined = False"
| "truthy JNull = False"
| "truthy (JBool b) = b"
| "truthy (JNum s) = (s \<noteq> ''0'' \<and> s \<noteq> ''NaN'')"
| "truthy (JStr s) = (s \<noteq> [])"
| "truthy (JArr xs) = True"
| "truthy (JObj kvs) = True"

definition nullish :: "json \<Rightarrow> bool" where
  "nullish x = (x = JUndefined \<or> x = JNull)"

text \<open>\<^verbatim>\<open>a || b\<close>\<close>

definition js_or :: "json \<Rightarrow> json \<Rightarrow> json" where
  "js_or a b = (if truthy a then a else b)"

fun join_comma :: "string list \<Rightarrow> string" where
  "join_comma [] = []"
| "join_comma [s] = s"
| "join_comma (s # t # ss) = s @ '','' @ join_comma (t # ss)"

subsection \<open>Exceptions\<close>

text \<open>
  What a \<^verbatim>\<open>catch (error)\<close> block can receive: a \<^verbatim>\<open>TypeError\<close> of the engine, the
  \<^verbatim>\<open>Error\<close> thrown by \<^verbatim>\<open>getVercelClient\<close>, or the rejection of an outbound call,
  which carries \<^verbatim>\<open>error.response.data\<close> (\<open>JUndefined\<close> when no response arrived).
  All three are instances of \<^verbatim>\<open>Error\<close> and have a \<^verbatim>\<open>message\<close>.
\<close>

datatype js_error =
    TypeError string
  | Error string
  | AxiosError string json

fun message :: "js_error \<Rightarrow> string" where
  "message (TypeError m) = m"
| "message (Error m) = m"
| "message (AxiosError m d) = m"

fun response_data :: "js_error \<Rightarrow> json" where
  "response_data (AxiosError m d) = d"
| "response_data e = JUndefined"

subsection \<open>String conversion\<close>

text \<open>
  String conversion, as a template literal \<^verbatim>\<open>`${x}`\<close> and a computed property key
  \<^verbatim>\<open>acc[x]\<close> apply it. An array is joined with commas, \<^verbatim>\<open>null\<close> and \<^verbatim>\<open>undefined\<close>
  elements contributing the empty string. A plain object is \<^verbatim>\<open>[object Object]\<close>, unless
  it has an own property \<^verbatim>\<open>toString\<close>: in a value that came from JSON that property is
  not callable, no other conversion yields a primitive, and the conversion throws.
\<close>

fun to_str :: "json \<Rightarrow> js_error + string"
  and to_strs :: "json list \<Rightarrow> js_error + string list" where
  "to_str JUndefined = Inr ''undefined''"
| "to_str JNull = Inr ''null''"
| "to_str (JBool b) = Inr (if b then ''true'' else ''false'')"
| "to_str (JNum s) = Inr s"
| "to_str (JStr s) = Inr s"
| "to_str (JArr xs) = (case to_strs xs of Inl e \<Rightarrow> Inl e | Inr ss \<Rightarrow> Inr (join_comma ss))"
| "to_str (JObj kvs) =
     (if ''toString'' \<in> fst ` set kvs
      then Inl (TypeError ''Cannot convert object to primitive value'')
      else Inr ''[object Object]'')"
| "to_strs [] = Inr []"
| "to_strs (x # xs) =
     (case (if x = JUndefined \<or> x = JNull then Inr [] else to_str x) of
        Inl e \<Rightarrow> Inl e
      | Inr s \<Rightarrow> (case to_strs xs of Inl e \<Rightarrow> Inl e | Inr ss \<Rightarrow> Inr (s # ss)))"

subsection \<open>Property access\<close>

text \<open>
  \<open>field x p\<close> is \<^verbatim>\<open>x?.p\<close>: the own property of an object, \<^verbatim>\<open>undefined\<close> for a missing
  property, for a primitive, for an array (none of the names the handlers read is
  an array index or a built-in member whose value would be sent) and for
  \<^verbatim>\<open>null\<close>/\<^verbatim>\<open>undefined\<close>.
  \<open>get_prop x p\<close> is \<^verbatim>\<open>x.p\<close>, which throws on \<^verbatim>\<open>null\<close>/\<^verbatim>\<open>undefined\<close>.
\<close>

fun field :: "json \<Rightarrow> string \<Rightarrow> json" where
  "field (JObj kvs) p = (case map_of kvs p of Some v \<Rightarrow> v | None \<Rightarrow> JUndefined)"
| "field x p = JUndefined"

definition cannot_read :: "json \<Rightarrow> string \<Rightarrow> js_error" where
  "cannot_read x p =
     TypeError (''Cannot read properties of '' @ (if x = JNull then ''null'' else ''undefined'')
                @ '' (reading '' @ [CHR 0x27] @ p @ [CHR 0x27] @ '')'')"

definition get_prop :: "json \<Rightarrow> string \<Rightarrow> js_error + json" where
  "get_prop x p = (if nullish x then Inl (cannot_read x p) else Inr (field x p))"

text \<open>
  \<^verbatim>\<open>const { p, ... } = x\<close>: destructuring throws on \<^verbatim>\<open>null\<close>/\<^verbatim>\<open>undefined\<close>, and
  reads properties otherwise.
\<close>

definition destructure :: "json \<Rightarrow> string \<Rightarrow> js_error + json" where
  "destructure x p =
     (if nullish x
      then Inl (TypeError (''Cannot destructure property '' @ [CHR 0x27] @ p @ [CHR 0x27]
                            @ '' of '' @ [CHR 0x27] @ ''req.body'' @ [CHR 0x27]
                            @ '' as it is '' @ (if x = JNull then ''null'' else ''undefined'')
                            @ ''.''))
      else Inr (field x p))"

text \<open>
  \<^verbatim>\<open>x.map(f)\<close> and \<^verbatim>\<open>x.filter(f)\<close> need an array: \<open>as_array\<close> gives its elements,
  and the \<^verbatim>\<open>TypeError\<close> of the call otherwise.
\<close>

definition as_array :: "string \<Rightarrow> string \<Rightarrow> json \<Rightarrow> js_error + json list" where
  "as_array expr m x =
     (case x of
        JArr xs \<Rightarrow> Inr xs
      | JUndefined \<Rightarrow> Inl (cannot_read x m)
      | JNull \<Rightarrow> Inl (cannot_read x m)
      | _ \<Rightarrow> Inl (TypeError (expr @ ''.'' @ m @ '' is not a function'')))"

fun mapE :: "('a \<Rightarrow> 'e + 'b) \<Rightarrow> 'a list \<Rightarrow> 'e + 'b list" where
  "mapE f [] = Inr []"
| "mapE f (x # xs) =
     (case f x of
        Inl e \<Rightarrow> Inl e
      | Inr y \<Rightarrow> (case mapE f xs of Inl e \<Rightarrow> Inl e | Inr ys \<Rightarrow> Inr (y # ys)))"

fun filterE :: "('a \<Rightarrow> 'e + bool) \<Rightarrow> 'a list \<Rightarrow> 'e + 'a list" where
  "filterE f [] = Inr []"
| "filterE f (x # xs) =
     (case f x of
        Inl e \<Rightarrow> Inl e
      | Inr b \<Rightarrow> (case filterE f xs of
                    Inl e \<Rightarrow> Inl e
                  | Inr ys \<Rightarrow> Inr (if b then x # ys else ys)))"

subsection \<open>Strings\<close>

text \<open>
  \<^verbatim>\<open>toLowerCase\<close> on the letters A to Z. No character outside ASCII lower-cases to one
  of the letters of \<^verbatim>\<open>error\<close>, so the test of the errors handler is not affected by
  leaving the other characters alone.
\<close>

definition lower_char :: "char \<Rightarrow> char" where
  "lower_char c =
     (case map_of (zip ''ABCDEFGHIJKLMNOPQRSTUVWXYZ'' ''abcdefghijklmnopqrstuvwxyz'') c of
        Some l \<Rightarrow> l
      | None \<Rightarrow> c)"

definition toLowerCase :: "string \<Rightarrow> string" where
  "toLowerCase s = map lower_char s"

text \<open>\<^verbatim>\<open>s.includes(n)\<close>\<close>

fun str_includes :: "string \<Rightarrow> string \<Rightarrow> bool" where
  "str_includes [] n = (n = [])"
| "str_includes (c # s) n = (prefix n (c # s) \<or> str_includes s n)"

text \<open>The decimal rendering of an array index, and the value of a digit string.\<close>

definition digit_char :: "nat \<Rightarrow> char" where
  "digit_char n = ''0123456789'' ! n"

fun decimal :: "nat \<Rightarrow> string" where
  "decimal n = (if n < 10 then [digit_char n] else decimal (n div 10) @ [digit_char (n mod 10)])"

declare decimal.simps [simp del]

definition is_digit :: "char \<Rightarrow> bool" where
  "is_digit c = (c \<in> set ''0123456789'')"

definition digits_value :: "string \<Rightarrow> nat" where
  "digits_value s = foldl (\<lambda>n c. 10 * n + (of_char c - 48)) 0 s"

text \<open>
  A property key is an array index when it is the canonical rendering of an integer
  from 0 to \<open>2\<^sup>3\<^sup>2 - 2\<close>: digits only, no leading zero. Such keys are enumerated
  first, in numeric order; the other keys follow in insertion order.
\<close>

definition array_index :: "string \<Rightarrow> nat option" where
  "array_index k =
     (if k \<noteq> [] \<and> list_all is_digit k \<and> (hd k \<noteq> CHR ''0'' \<or> k = ''0'')
         \<and> length k \<le> 10 \<and> digits_value k < 4294967295
      then Some (digits_value k) else None)"

definition own_entries :: "(string \<times> json) list \<Rightarrow> (string \<times> json) list" where
  "own_entries kvs =
     sort_key (\<lambda>kv. the (array_index (fst kv))) (filter (\<lambda>kv. array_index (fst kv) \<noteq> None) kvs)
     @ filter (\<lambda>kv. array_index (fst kv) = None) kvs"

text \<open>\<^verbatim>\<open>Object.entries(x)\<close>\<close>

definition object_entries :: "json \<Rightarrow> js_error + (string \<times> json) list" where
  "object_entries x =
     (case x of
        JObj kvs \<Rightarrow> Inr (own_entries kvs)
      | JArr xs \<Rightarrow> Inr (zip (map decimal [0 ..< length xs]) xs)
      | JStr s \<Rightarrow> Inr (zip (map decimal [0 ..< length s]) (map (\<lambda>c. JStr [c]) s))
      | JUndefined \<Rightarrow> Inl (TypeError ''Cannot convert undefined or null to object'')
      | JNull \<Rightarrow> Inl (TypeError ''Cannot convert undefined or null to object'')
      | _ \<Rightarrow> Inr [])"

section \<open>The gateway\<close>

text \<open>
  The environment of the process: the variables read from \<^verbatim>\<open>process.env\<close> (absent
  when unset), and the two readings the liveness probe takes, \<^verbatim>\<open>process.uptime()\<close> and
  \<^verbatim>\<open>new Date().toISOString()\<close>.
\<close>

record process_env =
  MCP_API_KEY :: "string option"
  VERCEL_TOKEN :: "string option"
  NODE_ENV :: "string option"
  uptime :: json
  now_iso :: string

text \<open>
  An inbound request as the application receives it: \<^verbatim>\<open>req.method\<close>, \<^verbatim>\<open>req.path\<close>,
  \<^verbatim>\<open>req.headers['x-api-key']\<close>, and what the two stateful or parsing middlewares of the
  libraries make of it: \<open>in_parsed\<close> is the outcome of \<^verbatim>\<open>express.json({limit: '10mb'})\<close>
  on the request (the value it leaves in \<^verbatim>\<open>req.body\<close>, or the error it hands to
  \<^verbatim>\<open>next\<close> for a malformed or oversized body), and \<open>in_hits\<close> is the number of
  requests the rate limiter has counted for this client in the current window before
  this one.
\<close>

record inbound =
  in_method :: string
  in_path :: string
  in_api_key :: "string option"
  in_parsed :: "js_error + json"
  in_hits :: nat

text \<open>
  The request as the guard and the handlers see it, once the body parser has filled in
  \<^verbatim>\<open>req.body\<close>: \<^verbatim>\<open>req.method\<close>, \<^verbatim>\<open>req.path\<close>, \<^verbatim>\<open>req.headers['x-api-key']\<close> and
  \<^verbatim>\<open>req.body\<close>.
\<close>

record request =
  req_method :: string
  req_path :: string
  x_api_key :: "string option"
  req_body :: json

record response =
  status :: nat
  body :: json

text \<open>
  An outbound call of the client of \<^verbatim>\<open>getVercelClient\<close> (base URL
  \<^verbatim>\<open>https://api.vercel.com\<close>): verb, path, the data handed to the client
  (\<open>JUndefined\<close> when the call has none) and the \<^verbatim>\<open>Authorization\<close> header.
  The remote platform answers a call with \<^verbatim>\<open>response.data\<close> or rejects it.
  Every handler returns its response together with the outbound calls it made, in the
  order it made them. Log records are not modelled.
\<close>

record outcall =
  verb :: string
  url :: string
  payload :: json
  authorization :: string

type_synonym remote = "outcall \<Rightarrow> js_error + json"

type_synonym attempt = "(js_error + response) \<times> outcall list"

definition json_reply :: "nat \<Rightarrow> json \<Rightarrow> response" where
  "json_reply code x = \<lparr>status = code, body = x\<rparr>"

subsection \<open>Authentication guard\<close>

text \<open>
  \<^verbatim>\<open>if (!apiKey || apiKey !== process.env.MCP_API_KEY) return res.status(401)...; next()\<close>
\<close>

definition authenticateAPI ::
  "process_env \<Rightarrow> request \<Rightarrow> (request \<Rightarrow> response \<times> outcall list) \<Rightarrow> response \<times> outcall list" where
  "authenticateAPI proc req next =
     (let apiKey = x_api_key req
      in (if (apiKey = None \<or> apiKey = Some []) \<or> apiKey \<noteq> MCP_API_KEY proc
          then (json_reply 401 (JObj [(''error'', JStr ''Unauthorized'')]), [])
          else next req))"

subsection \<open>The client\<close>

text \<open>
  \<^verbatim>\<open>axios.create({baseURL, headers: {Authorization: `Bearer ${token}`, ...}})\<close>: the
  client turns verb, path and data into an outbound call.
\<close>

definition vercel_client :: "string \<Rightarrow> string \<Rightarrow> string \<Rightarrow> json \<Rightarrow> outcall" where
  "vercel_client token v u d =
     \<lparr>verb = v, url = u, payload = d, authorization = ''Bearer '' @ token\<rparr>"

text \<open>\<^verbatim>\<open>if (!token) throw new Error('VERCEL_TOKEN not configured')\<close>\<close>

definition getVercelClient :: "process_env \<Rightarrow> js_error + (string \<Rightarrow> string \<Rightarrow> json \<Rightarrow> outcall)" where
  "getVercelClient proc =
     (case VERCEL_TOKEN proc of
        None \<Rightarrow> Inl (Error ''VERCEL_TOKEN not configured'')
      | Some token \<Rightarrow>
          if token = [] then Inl (Error ''VERCEL_TOKEN not configured'')
          else Inr (vercel_client token))"

subsection \<open>The error envelope\<close>

text \<open>
  \<^verbatim>\<open>details: error.response?.data?.error?.message || error.message\<close>, and the
  \<^verbatim>\<open>catch\<close> block every handler but the liveness probe ends with.
\<close>

definition error_details :: "js_error \<Rightarrow> json" where
  "error_details e =
     js_or (field (field (response_data e) ''error'') ''message'') (JStr (message e))"

definition failed :: "string \<Rightarrow> js_error \<Rightarrow> response" where
  "failed what e = json_reply 500 (JObj [(''error'', JStr what), (''details'', error_details e)])"

definition catch_500 :: "string \<Rightarrow> attempt \<Rightarrow> response \<times> outcall list" where
  "catch_500 what r = (case fst r of Inl e \<Rightarrow> (failed what e, snd r) | Inr res \<Rightarrow> (res, snd r))"

text \<open>\<^verbatim>\<open>`https://${x}`\<close>\<close>

definition https_url :: "json \<Rightarrow> js_error + string" where
  "https_url x = (case to_str x of Inl e \<Rightarrow> Inl e | Inr s \<Rightarrow> Inr (''https://'' @ s))"

subsection \<open>Liveness probe: GET /health\<close>

definition health_try :: "process_env \<Rightarrow> remote \<Rightarrow> attempt" where
  "health_try proc remote =
     (case getVercelClient proc of
        Inl e \<Rightarrow> (Inl e, [])
      | Inr client \<Rightarrow>
          (let c = client ''GET'' ''/v2/user'' JUndefined
           in (case remote c of
                 Inl e \<Rightarrow> (Inl e, [c])
               | Inr data \<Rightarrow>
                   (case get_prop data ''user'' of
                      Inl e \<Rightarrow> (Inl e, [c])
                    | Inr user \<Rightarrow>
                        (case get_prop user ''username'' of
                           Inl e \<Rightarrow> (Inl e, [c])
                         | Inr username \<Rightarrow>
                             (Inr (json_reply 200 (JObj
                                [(''status'', JStr ''healthy''),
                                 (''uptime'', uptime proc),
                                 (''timestamp'', JStr (now_iso proc)),
                                 (''vercel'', JObj [(''connected'', JBool True), (''user'', username)])])),
                              [c]))))))"

definition health_handler :: "process_env \<Rightarrow> remote \<Rightarrow> response \<times> outcall list" where
  "health_handler proc remote =
     (case health_try proc remote of
        (Inr res, calls) \<Rightarrow> (res, calls)
      | (Inl e, calls) \<Rightarrow>
          (json_reply 503 (JObj
             [(''status'', JStr ''unhealthy''),
              (''uptime'', uptime proc),
              (''timestamp'', JStr (now_iso proc)),
              (''vercel'', JObj [(''connected'', JBool False), (''error'', JStr (message e))])]),
           calls))"

subsection \<open>Trigger deployment: POST /api/deploy\<close>

text \<open>
  The accumulator of \<^verbatim>\<open>envVariables.reduce((acc, env) => { acc[env.key] = env.value; return acc }, {})\<close>
  is an ordinary object: its own properties, and its prototype (\<open>None\<close> for
  \<^verbatim>\<open>Object.prototype\<close>, which it starts with). An assignment to a key other than
  \<^verbatim>\<open>__proto__\<close> sets an own property. An assignment to \<^verbatim>\<open>__proto__\<close> sets an own
  property only when one exists already or the prototype chain holds a data property of
  that name or ends before \<^verbatim>\<open>Object.prototype\<close>; otherwise it reaches the accessor of
  \<^verbatim>\<open>Object.prototype\<close>, which replaces the prototype when the value is an object or
  \<^verbatim>\<open>null\<close> and does nothing for any other value.
\<close>

type_synonym acc_obj = "(string \<times> json) list \<times> json option"

definition proto_setter :: "acc_obj \<Rightarrow> json \<Rightarrow> acc_obj" where
  "proto_setter acc v =
     (case v of
        JObj ps \<Rightarrow> (fst acc, Some v)
      | JArr xs \<Rightarrow> (fst acc, Some v)
      | JNull \<Rightarrow> (fst acc, Some v)
      | _ \<Rightarrow> acc)"

definition assign :: "acc_obj \<Rightarrow> string \<Rightarrow> json \<Rightarrow> acc_obj" where
  "assign acc k v =
     (if k \<noteq> ''__proto__'' \<or> k \<in> fst ` set (fst acc) then (AList.update k v (fst acc), snd acc)
      else (case snd acc of
              Some JNull \<Rightarrow> (fst acc @ [(k, v)], snd acc)
            | Some (JObj ps) \<Rightarrow>
                (if k \<in> fst ` set ps then (fst acc @ [(k, v)], snd acc) else proto_setter acc v)
            | _ \<Rightarrow> proto_setter acc v))"

fun reduce_env :: "acc_obj \<Rightarrow> json list \<Rightarrow> js_error + acc_obj" where
  "reduce_env acc [] = Inr acc"
| "reduce_env acc (env # rest) =
     (case get_prop env ''key'' of
        Inl e \<Rightarrow> Inl e
      | Inr k \<Rightarrow>
          (case to_str k of
             Inl e \<Rightarrow> Inl e
           | Inr key \<Rightarrow> reduce_env (assign acc key (field env ''value'')) rest))"

definition deploymentData :: "json \<Rightarrow> json \<Rightarrow> json \<Rightarrow> json \<Rightarrow> json \<Rightarrow> js_error + json" where
  "deploymentData name gitSource framework buildCommand envVariables =
     (let base =
            [(''name'', name),
             (''gitSource'', JObj
                [(''type'', js_or (field gitSource ''type'') (JStr ''github'')),
                 (''repo'', field gitSource ''repo''),
                 (''ref'', js_or (field gitSource ''ref'') (JStr ''main''))]),
             (''target'', JStr ''preview'')]
            @ (if truthy framework then [(''framework'', framework)] else [])
            @ (if truthy buildCommand then [(''buildCommand'', buildCommand)] else [])
      in (case envVariables of
            JArr envs \<Rightarrow>
              (case reduce_env ([], None) envs of
                 Inl e \<Rightarrow> Inl e
               | Inr acc \<Rightarrow> Inr (JObj (base @ [(''env'', JObj (fst acc))])))
          | _ \<Rightarrow> Inr (JObj base)))"

definition deploy_try :: "process_env \<Rightarrow> remote \<Rightarrow> json \<Rightarrow> attempt" where
  "deploy_try proc remote b =
     (case destructure b ''name'' of
        Inl e \<Rightarrow> (Inl e, [])
      | Inr name \<Rightarrow>
          (let gitSource = field b ''gitSource'';
               envVariables = field b ''envVariables'';
               buildCommand = field b ''buildCommand'';
               framework = field b ''framework''
           in (if \<not> truthy name
               then (Inr (json_reply 400 (JObj [(''error'', JStr ''Project name is required'')])), [])
               else if \<not> truthy gitSource \<or> \<not> truthy (field gitSource ''repo'')
               then (Inr (json_reply 400 (JObj [(''error'', JStr ''Git source is required'')])), [])
               else (case getVercelClient proc of
                       Inl e \<Rightarrow> (Inl e, [])
                     | Inr client \<Rightarrow>
                         (case deploymentData name gitSource framework buildCommand envVariables of
                            Inl e \<Rightarrow> (Inl e, [])
                          | Inr dd \<Rightarrow>
                              (let c = client ''POST'' ''/v13/deployments'' dd
                               in (case remote c of
                                     Inl e \<Rightarrow> (Inl e, [c])
                                   | Inr data \<Rightarrow>
                                       (case get_prop data ''id'' of
                                          Inl e \<Rightarrow> (Inl e, [c])
                                        | Inr ident \<Rightarrow>
                                            (case https_url (field data ''url'') of
                                               Inl e \<Rightarrow> (Inl e, [c])
                                             | Inr u \<Rightarrow>
                                                 (Inr (json_reply 200 (JObj
                                                    [(''success'', JBool True),
                                                     (''deployment'', JObj
                                                        [(''id'', ident),
                                                         (''url'', JStr u),
                                                         (''status'', field data ''readyState''),
                                                         (''inspectorUrl'', field data ''inspectorUrl'')])])),
                                                  [c]))))))))))"

definition deploy_handler :: "process_env \<Rightarrow> remote \<Rightarrow> request \<Rightarrow> response \<times> outcall list" where
  "deploy_handler proc remote req =
     catch_500 ''Failed to trigger deployment'' (deploy_try proc remote (req_body req))"

subsection \<open>Deployment status: GET /api/deploy/:id/status\<close>

definition status_try :: "process_env \<Rightarrow> remote \<Rightarrow> string \<Rightarrow> attempt" where
  "status_try proc remote ident =
     (case getVercelClient proc of
        Inl e \<Rightarrow> (Inl e, [])
      | Inr client \<Rightarrow>
          (let c = client ''GET'' (''/v13/deployments/'' @ ident) JUndefined
           in (case remote c of
                 Inl e \<Rightarrow> (Inl e, [c])
               | Inr deployment \<Rightarrow>
                   (case get_prop deployment ''id'' of
                      Inl e \<Rightarrow> (Inl e, [c])
                    | Inr did \<Rightarrow>
                        (case https_url (field deployment ''url'') of
                           Inl e \<Rightarrow> (Inl e, [c])
                         | Inr u \<Rightarrow>
                             (Inr (json_reply 200 (JObj
                                [(''success'', JBool True),
                                 (''deployment'', JObj
                                    [(''id'', did),
                                     (''url'', JStr u),
                                     (''status'', field deployment ''readyState''),
                                     (''state'', field deployment ''state''),
                                     (''ready'', field deployment ''ready''),
                                     (''createdAt'', field deployment ''createdAt''),
                                     (''buildingAt'', field deployment ''buildingAt''),
                                     (''readyAt'', field deployment ''readyAt''),
                                     (''creator'', field (field deployment ''creator'') ''username''),
                                     (''meta'', JObj
                                        [(''githubCommitRef'',
                                            field (field deployment ''meta'') ''githubCommitRef''),
                                         (''githubCommitMessage'',
                                            field (field deployment ''meta'') ''githubCommitMessage''),
                                         (''githubCommitAuthorName'',
                                            field (field deployment ''meta'') ''githubCommitAuthorName'')])])])),
                              [c]))))))"

definition status_handler :: "process_env \<Rightarrow> remote \<Rightarrow> string \<Rightarrow> response \<times> outcall list" where
  "status_handler proc remote ident =
     catch_500 ''Failed to get deployment status'' (status_try proc remote ident)"

subsection \<open>Deployment logs: GET /api/deploy/:id/logs\<close>

definition log_entry :: "json \<Rightarrow> js_error + json" where
  "log_entry event =
     (case get_prop event ''created'' of
        Inl e \<Rightarrow> Inl e
      | Inr created \<Rightarrow>
          Inr (JObj [(''timestamp'', created),
                     (''type'', field event ''type''),
                     (''payload'', field event ''payload'')]))"

definition logs_try :: "process_env \<Rightarrow> remote \<Rightarrow> string \<Rightarrow> attempt" where
  "logs_try proc remote ident =
     (case getVercelClient proc of
        Inl e \<Rightarrow> (Inl e, [])
      | Inr client \<Rightarrow>
          (let c = client ''GET'' (''/v2/deployments/'' @ ident @ ''/events'') JUndefined
           in (case remote c of
                 Inl e \<Rightarrow> (Inl e, [c])
               | Inr data \<Rightarrow>
                   (case as_array ''response.data'' ''map'' data of
                      Inl e \<Rightarrow> (Inl e, [c])
                    | Inr events \<Rightarrow>
                        (case mapE log_entry events of
                           Inl e \<Rightarrow> (Inl e, [c])
                         | Inr logs \<Rightarrow>
                             (Inr (json_reply 200 (JObj
                                [(''success'', JBool True), (''logs'', JArr logs)])),
                              [c]))))))"

definition logs_handler :: "process_env \<Rightarrow> remote \<Rightarrow> string \<Rightarrow> response \<times> outcall list" where
  "logs_handler proc remote ident =
     catch_500 ''Failed to get deployment logs'' (logs_try proc remote ident)"

subsection \<open>Promotion: POST /api/deploy/:id/promote\<close>

definition promote_try :: "process_env \<Rightarrow> remote \<Rightarrow> string \<Rightarrow> attempt" where
  "promote_try proc remote ident =
     (case getVercelClient proc of
        Inl e \<Rightarrow> (Inl e, [])
      | Inr client \<Rightarrow>
          (let c1 = client ''GET'' (''/v13/deployments/'' @ ident) JUndefined
           in (case remote c1 of
                 Inl e \<Rightarrow> (Inl e, [c1])
               | Inr data \<Rightarrow>
                   (case get_prop data ''projectId'' of
                      Inl e \<Rightarrow> (Inl e, [c1])
                    | Inr projectId \<Rightarrow>
                        (case to_str projectId of
                           Inl e \<Rightarrow> (Inl e, [c1])
                         | Inr p \<Rightarrow>
                             (let c2 = client ''PATCH'' (''/v9/projects/'' @ p)
                                         (JObj [(''framework'', field data ''framework'')])
                              in (case remote c2 of
                                    Inl e \<Rightarrow> (Inl e, [c1, c2])
                                  | Inr r \<Rightarrow>
                                      (Inr (json_reply 200 (JObj
                                         [(''success'', JBool True),
                                          (''message'', JStr ''Deployment promoted to production''),
                                          (''deploymentId'', JStr ident)])),
                                       [c1, c2]))))))))"

definition promote_handler :: "process_env \<Rightarrow> remote \<Rightarrow> string \<Rightarrow> response \<times> outcall list" where
  "promote_handler proc remote ident =
     catch_500 ''Failed to promote deployment'' (promote_try proc remote ident)"

subsection \<open>Cancellation: DELETE /api/deploy/:id\<close>

definition cancel_try :: "process_env \<Rightarrow> remote \<Rightarrow> string \<Rightarrow> attempt" where
  "cancel_try proc remote ident =
     (case getVercelClient proc of
        Inl e \<Rightarrow> (Inl e, [])
      | Inr client \<Rightarrow>
          (let c = client ''PATCH'' (''/v12/deployments/'' @ ident @ ''/cancel'') JUndefined
           in (case remote c of
                 Inl e \<Rightarrow> (Inl e, [c])
               | Inr r \<Rightarrow>
                   (Inr (json_reply 200 (JObj
                      [(''success'', JBool True),
                       (''message'', JStr ''Deployment cancelled''),
                       (''deploymentId'', JStr ident)])),
                    [c]))))"

definition cancel_handler :: "process_env \<Rightarrow> remote \<Rightarrow> string \<Rightarrow> response \<times> outcall list" where
  "cancel_handler proc remote ident =
     catch_500 ''Failed to cancel deployment'' (cancel_try proc remote ident)"

subsection \<open>Project listing: GET /api/projects\<close>

definition latest_deployment :: "json \<Rightarrow> js_error + json" where
  "latest_deployment d =
     (case get_prop d ''id'' of
        Inl e \<Rightarrow> Inl e
      | Inr did \<Rightarrow>
          (case https_url (field d ''url'') of
             Inl e \<Rightarrow> Inl e
           | Inr u \<Rightarrow>
               Inr (JObj [(''id'', did),
                          (''url'', JStr u),
                          (''ready'', field d ''ready''),
                          (''createdAt'', field d ''createdAt'')])))"

text \<open>\<^verbatim>\<open>project.latestDeployments?.map(...)\<close>\<close>

definition latestDeployments :: "json \<Rightarrow> js_error + json" where
  "latestDeployments project =
     (let ds = field project ''latestDeployments''
      in (if nullish ds then Inr JUndefined
          else (case as_array ''project.latestDeployments?'' ''map'' ds of
                  Inl e \<Rightarrow> Inl e
                | Inr xs \<Rightarrow>
                    (case mapE latest_deployment xs of
                       Inl e \<Rightarrow> Inl e
                     | Inr ys \<Rightarrow> Inr (JArr ys)))))"

definition project_entry :: "json \<Rightarrow> js_error + json" where
  "project_entry project =
     (case get_prop project ''id'' of
        Inl e \<Rightarrow> Inl e
      | Inr pid \<Rightarrow>
          (case latestDeployments project of
             Inl e \<Rightarrow> Inl e
           | Inr lds \<Rightarrow>
               Inr (JObj [(''id'', pid),
                          (''name'', field project ''name''),
                          (''framework'', field project ''framework''),
                          (''createdAt'', field project ''createdAt''),
                          (''updatedAt'', field project ''updatedAt''),
                          (''link'', field project ''link''),
                          (''latestDeployments'', lds)])))"

definition projects_try :: "process_env \<Rightarrow> remote \<Rightarrow> attempt" where
  "projects_try proc remote =
     (case getVercelClient proc of
        Inl e \<Rightarrow> (Inl e, [])
      | Inr client \<Rightarrow>
          (let c = client ''GET'' ''/v9/projects'' JUndefined
           in (case remote c of
                 Inl e \<Rightarrow> (Inl e, [c])
               | Inr data \<Rightarrow>
                   (case get_prop data ''projects'' of
                      Inl e \<Rightarrow> (Inl e, [c])
                    | Inr ps \<Rightarrow>
                        (case as_array ''response.data.projects'' ''map'' ps of
                           Inl e \<Rightarrow> (Inl e, [c])
                         | Inr xs \<Rightarrow>
                             (case mapE project_entry xs of
                                Inl e \<Rightarrow> (Inl e, [c])
                              | Inr projects \<Rightarrow>
                                  (Inr (json_reply 200 (JObj
                                     [(''success'', JBool True), (''projects'', JArr projects)])),
                                   [c])))))))"

definition projects_handler :: "process_env \<Rightarrow> remote \<Rightarrow> response \<times> outcall list" where
  "projects_handler proc remote = catch_500 ''Failed to list projects'' (projects_try proc remote)"

subsection \<open>Environment variables: POST /api/env\<close>

text \<open>
  \<^verbatim>\<open>Promise.all\<close> over the outcomes of calls that are in flight together. It resolves when
  all of them resolve, and rejects with the rejection that settles first. Which one that
  is the network decides, not the code: \<open>order\<close> lists the positions of the calls in the
  order in which they settle (a call it does not list settles after the listed ones, in
  position order).
\<close>

definition promise_all :: "nat list \<Rightarrow> (js_error + json) list \<Rightarrow> js_error + json list" where
  "promise_all order rs =
     (case filter (\<lambda>i. i < length rs \<and> isl (rs ! i)) order of
        i # _ \<Rightarrow> Inl (projl (rs ! i))
      | [] \<Rightarrow>
          (case filter isl rs of
             r # _ \<Rightarrow> Inl (projl r)
           | [] \<Rightarrow> Inr (map projr rs)))"

text \<open>
  The callback of \<^verbatim>\<open>Object.entries(env).map(...)\<close>: it builds the path
  \<^verbatim>\<open>`/v9/projects/${projectId}/env`\<close>, which may throw, and then starts the write.
  \<open>env_posts\<close> runs it over the entries: the writes started so far, and the exception
  that stopped it, if any.
\<close>

definition env_write :: "(string \<Rightarrow> string \<Rightarrow> json \<Rightarrow> outcall) \<Rightarrow> string \<Rightarrow> string \<times> json \<Rightarrow> outcall" where
  "env_write client p kv =
     client ''POST'' (''/v9/projects/'' @ p @ ''/env'')
       (JObj [(''key'', JStr (fst kv)),
              (''value'', snd kv),
              (''type'', JStr ''encrypted''),
              (''target'', JArr [JStr ''production'', JStr ''preview''])])"

fun env_posts ::
  "(string \<Rightarrow> string \<Rightarrow> json \<Rightarrow> outcall) \<Rightarrow> json \<Rightarrow> (string \<times> json) list \<Rightarrow> outcall list
     \<Rightarrow> js_error option \<times> outcall list" where
  "env_posts client projectId [] started = (None, started)"
| "env_posts client projectId (kv # rest) started =
     (case to_str projectId of
        Inl e \<Rightarrow> (Some e, started)
      | Inr p \<Rightarrow> env_posts client projectId rest (started @ [env_write client p kv]))"

definition env_try :: "process_env \<Rightarrow> remote \<Rightarrow> nat list \<Rightarrow> json \<Rightarrow> attempt" where
  "env_try proc remote order b =
     (case destructure b ''projectId'' of
        Inl e \<Rightarrow> (Inl e, [])
      | Inr projectId \<Rightarrow>
          (let env = field b ''env''
           in (if \<not> truthy projectId \<or> \<not> truthy env
               then (Inr (json_reply 400 (JObj
                       [(''error'', JStr ''Project ID and environment variables are required'')])), [])
               else (case getVercelClient proc of
                       Inl e \<Rightarrow> (Inl e, [])
                     | Inr client \<Rightarrow>
                         (case object_entries env of
                            Inl e \<Rightarrow> (Inl e, [])
                          | Inr entries \<Rightarrow>
                              (case env_posts client projectId entries [] of
                                 (Some e, calls) \<Rightarrow> (Inl e, calls)
                               | (None, calls) \<Rightarrow>
                                   (case promise_all order (map remote calls) of
                                      Inl e \<Rightarrow> (Inl e, calls)
                                    | Inr rs \<Rightarrow>
                                        (Inr (json_reply 200 (JObj
                                           [(''success'', JBool True),
                                            (''message'', JStr ''Environment variables set successfully'')])),
                                         calls))))))))"

definition env_handler :: "process_env \<Rightarrow> remote \<Rightarrow> nat list \<Rightarrow> request \<Rightarrow> response \<times> outcall list" where
  "env_handler proc remote order req =
     catch_500 ''Failed to set environment variables'' (env_try proc remote order (req_body req))"

subsection \<open>Domains: POST /api/projects/:id/domain\<close>

definition domain_try :: "process_env \<Rightarrow> remote \<Rightarrow> string \<Rightarrow> json \<Rightarrow> attempt" where
  "domain_try proc remote ident b =
     (case destructure b ''domain'' of
        Inl e \<Rightarrow> (Inl e, [])
      | Inr domain \<Rightarrow>
          (if \<not> truthy domain
           then (Inr (json_reply 400 (JObj [(''error'', JStr ''Domain is required'')])), [])
           else (case getVercelClient proc of
                   Inl e \<Rightarrow> (Inl e, [])
                 | Inr client \<Rightarrow>
                     (let c = client ''POST'' (''/v9/projects/'' @ ident @ ''/domains'')
                                (JObj [(''name'', domain)])
                      in (case remote c of
                            Inl e \<Rightarrow> (Inl e, [c])
                          | Inr r \<Rightarrow>
                              (Inr (json_reply 200 (JObj
                                 [(''success'', JBool True),
                                  (''message'', JStr ''Domain added successfully''),
                                  (''domain'', domain)])),
                               [c]))))))"

definition domain_handler ::
  "process_env \<Rightarrow> remote \<Rightarrow> string \<Rightarrow> request \<Rightarrow> response \<times> outcall list" where
  "domain_handler proc remote ident req =
     catch_500 ''Failed to add domain'' (domain_try proc remote ident (req_body req))"

subsection \<open>Build errors: GET /api/deploy/:id/errors\<close>

text \<open>
  The filter callback,
  \<^verbatim>\<open>event.type === 'stderr' || (event.payload?.text && event.payload.text.toLowerCase().includes('error'))\<close>,
  and the map callback,
  \<^verbatim>\<open>{timestamp: event.created, message: event.payload?.text || event.payload?.message || 'Unknown error'}\<close>.
\<close>

definition is_error_event :: "json \<Rightarrow> js_error + bool" where
  "is_error_event event =
     (case get_prop event ''type'' of
        Inl e \<Rightarrow> Inl e
      | Inr t \<Rightarrow>
          (if t = JStr ''stderr'' then Inr True
           else (let text = field (field event ''payload'') ''text''
                 in (if \<not> truthy text then Inr False
                     else (case text of
                             JStr s \<Rightarrow> Inr (str_includes (toLowerCase s) ''error'')
                           | _ \<Rightarrow> Inl (TypeError ''event.payload.text.toLowerCase is not a function''))))))"

definition error_entry :: "json \<Rightarrow> json" where
  "error_entry event =
     JObj [(''timestamp'', field event ''created''),
           (''message'',
              js_or (js_or (field (field event ''payload'') ''text'')
                           (field (field event ''payload'') ''message''))
                    (JStr ''Unknown error''))]"

definition errors_try :: "process_env \<Rightarrow> remote \<Rightarrow> string \<Rightarrow> attempt" where
  "errors_try proc remote ident =
     (case getVercelClient proc of
        Inl e \<Rightarrow> (Inl e, [])
      | Inr client \<Rightarrow>
          (let c = client ''GET'' (''/v2/deployments/'' @ ident @ ''/events'') JUndefined
           in (case remote c of
                 Inl e \<Rightarrow> (Inl e, [c])
               | Inr data \<Rightarrow>
                   (case as_array ''response.data'' ''filter'' data of
                      Inl e \<Rightarrow> (Inl e, [c])
                    | Inr events \<Rightarrow>
                        (case filterE is_error_event events of
                           Inl e \<Rightarrow> (Inl e, [c])
                         | Inr kept \<Rightarrow>
                             (let errors = map error_entry kept
                              in (Inr (json_reply 200 (JObj
                                    [(''success'', JBool True),
                                     (''errors'', JArr errors),
                                     (''hasErrors'', JBool (length errors > 0))])),
                                  [c])))))))"

definition errors_handler :: "process_env \<Rightarrow> remote \<Rightarrow> string \<Rightarrow> response \<times> outcall list" where
  "errors_handler proc remote ident =
     catch_500 ''Failed to parse build errors'' (errors_try proc remote ident)"

subsection \<open>The application\<close>

text \<open>
  The route table of the source. Matching a request's method and path against it is the
  router's work (the web framework's, not this repository's), so the application takes
  it as a parameter: \<open>router req\<close> is the entry the request matches, with the value of
  \<^verbatim>\<open>:id\<close>, or \<open>NotFound\<close>.
\<close>

datatype endpoint =
    Health
  | Deploy
  | Status string
  | Logs string
  | Promote string
  | Cancel string
  | Projects
  | Env
  | Domain string
  | Errors string
  | NotFound

definition routes ::
  "process_env \<Rightarrow> remote \<Rightarrow> nat list \<Rightarrow> endpoint \<Rightarrow> request \<Rightarrow> response \<times> outcall list" where
  "routes proc remote order ep req =
     (case ep of
        Health \<Rightarrow> health_handler proc remote
      | Deploy \<Rightarrow> deploy_handler proc remote req
      | Status ident \<Rightarrow> status_handler proc remote ident
      | Logs ident \<Rightarrow> logs_handler proc remote ident
      | Promote ident \<Rightarrow> promote_handler proc remote ident
      | Cancel ident \<Rightarrow> cancel_handler proc remote ident
      | Projects \<Rightarrow> projects_handler proc remote
      | Env \<Rightarrow> env_handler proc remote order req
      | Domain ident \<Rightarrow> domain_handler proc remote ident req
      | Errors ident \<Rightarrow> errors_handler proc remote ident
      | NotFound \<Rightarrow> (json_reply 404 (JObj [(''error'', JStr ''Endpoint not found'')]), []))"

text \<open>
  The middleware the source registers with \<^verbatim>\<open>app.use\<close>, in its order.
  \<^verbatim>\<open>helmet()\<close> only adds response headers and passes every request on; responses carry
  no headers here, so it has no counterpart.
  \<^verbatim>\<open>cors()\<close> with its defaults answers every \<^verbatim>\<open>OPTIONS\<close> request itself, 204 with no
  body, and passes every other request on.
\<close>

definition cors :: "inbound \<Rightarrow> response \<times> outcall list \<Rightarrow> response \<times> outcall list" where
  "cors inb next =
     (if in_method inb = ''OPTIONS'' then (json_reply 204 JUndefined, []) else next)"

text \<open>
  The error-handling middleware, registered after the routes:
  \<^verbatim>\<open>res.status(500).json({error: 'Internal server error', message: process.env.NODE_ENV === 'development' ? error.message : undefined})\<close>.
  The handlers catch their own exceptions, so it receives the errors of the middleware.
\<close>

definition error_handler :: "process_env \<Rightarrow> js_error \<Rightarrow> response" where
  "error_handler proc error =
     json_reply 500 (JObj
       [(''error'', JStr ''Internal server error''),
        (''message'',
           if NODE_ENV proc = Some ''development'' then JStr (message error) else JUndefined)])"

text \<open>
  \<^verbatim>\<open>express.json({limit: '10mb'})\<close>: an error of the parser goes to the error handler,
  past the guard and the routes; a parsed body goes on as \<^verbatim>\<open>req.body\<close>.
\<close>

definition parsed_request :: "inbound \<Rightarrow> json \<Rightarrow> request" where
  "parsed_request inb b =
     \<lparr>req_method = in_method inb, req_path = in_path inb,
      x_api_key = in_api_key inb, req_body = b\<rparr>"

definition express_json ::
  "process_env \<Rightarrow> inbound \<Rightarrow> (request \<Rightarrow> response \<times> outcall list) \<Rightarrow> response \<times> outcall list" where
  "express_json proc inb next =
     (case in_parsed inb of
        Inl error \<Rightarrow> (error_handler proc error, [])
      | Inr b \<Rightarrow> next (parsed_request inb b))"

text \<open>
  \<^verbatim>\<open>rateLimit({windowMs: 60 * 60 * 1000, max: 1000, message: '...'})\<close>: the limiter counts
  the request and answers 429 with the message once the count exceeds \<^verbatim>\<open>max\<close>.
\<close>

definition limiter :: "inbound \<Rightarrow> response \<times> outcall list \<Rightarrow> response \<times> outcall list" where
  "limiter inb next =
     (if 1000 < Suc (in_hits inb)
      then (json_reply 429 (JStr ''Too many requests from this IP, please try again later.''), [])
      else next)"

text \<open>
  \<^verbatim>\<open>app.use((req, res, next) => { if (req.path === '/health') return next(); authenticateAPI(req, res, next) })\<close>,
  followed by the routes.
\<close>

definition guard ::
  "process_env \<Rightarrow> request \<Rightarrow> (request \<Rightarrow> response \<times> outcall list) \<Rightarrow> response \<times> outcall list" where
  "guard proc req next =
     (if req_path req = ''/health'' then next req else authenticateAPI proc req next)"

definition app ::
  "process_env \<Rightarrow> (request \<Rightarrow> endpoint) \<Rightarrow> remote \<Rightarrow> nat list \<Rightarrow> inbound \<Rightarrow> response \<times> outcall list" where
  "app proc router remote order inb =
     cors inb
       (express_json proc inb
          (\<lambda>req. limiter inb
             (guard proc req (\<lambda>r. routes proc remote order (router r) r))))"

subsection \<open>A sample configuration\<close>

text \<open>Both secrets configured; used where a property is instantiated at a concrete input.\<close>

definition example_proc :: process_env where
  "example_proc =
     \<lparr>MCP_API_KEY = Some ''s3cret'', VERCEL_TOKEN = Some ''tok'', NODE_ENV = None,
      uptime = JNum ''12.5'', now_iso = ''2024-01-01T00:00:00.000Z''\<rparr>"

section \<open>Vocabulary of the properties\<close>

subsection \<open>The two answers of the liveness probe\<close>

definition is_string :: "json \<Rightarrow> bool" where
  "is_string x = (case x of JStr s \<Rightarrow> True | _ \<Rightarrow> False)"

definition healthy_shape :: "response \<Rightarrow> bool" where
  "healthy_shape r =
     (status r = 200 \<and> field (body r) ''status'' = JStr ''healthy''
      \<and> field (field (body r) ''vercel'') ''connected'' = JBool True)"

definition unhealthy_shape :: "response \<Rightarrow> bool" where
  "unhealthy_shape r =
     (status r = 503 \<and> field (body r) ''status'' = JStr ''unhealthy''
      \<and> field (field (body r) ''vercel'') ''connected'' = JBool False
      \<and> is_string (field (field (body r) ''vercel'') ''error''))"

definition identity_call :: "string \<Rightarrow> outcall" where
  "identity_call token = vercel_client token ''GET'' ''/v2/user'' JUndefined"

subsection \<open>Sample requests\<close>

definition example_deploy :: request where
  "example_deploy =
     \<lparr>req_method = ''POST'', req_path = ''/api/deploy'', x_api_key = Some ''s3cret'',
      req_body = JObj [(''name'', JStr ''app''),
                       (''gitSource'', JObj [(''repo'', JStr ''org/repo'')]),
                       (''target'', JStr ''production''),
                       (''envVariables'', JArr [JObj [(''key'', JStr ''API_KEY''),
                                                      (''value'', JStr ''secret'')]])]\<rparr>"

definition example_env :: request where
  "example_env =
     \<lparr>req_method = ''POST'', req_path = ''/api/env'', x_api_key = Some ''s3cret'',
      req_body = JObj [(''projectId'', JStr ''prj_1''),
                       (''env'', JObj [(''A'', JStr ''1''), (''B'', JStr ''2'')])]\<rparr>"

text \<open>A remote platform that rejects the write of the variable \<open>B\<close> and accepts every other call.\<close>

definition rejects_B :: remote where
  "rejects_B c =
     (if field (payload c) ''key'' = JStr ''B''
      then Inl (AxiosError ''Request failed with status code 400''
                  (JObj [(''error'', JObj [(''message'', JStr ''bad value'')])]))
      else Inr (JObj []))"

text \<open>The success answer of the environment-variable handler.\<close>

definition env_success :: response where
  "env_success =
     \<lparr>status = 200,
      body = JObj [(''success'', JBool True),
                   (''message'', JStr ''Environment variables set successfully'')]\<rparr>"

subsection \<open>Build errors\<close>

text \<open>
  The errors handler in the words of its description. An event is kept when its type is
  exactly \<^verbatim>\<open>stderr\<close> or its payload text contains \<^verbatim>\<open>error\<close> in any letter case.
\<close>

definition text_of :: "json \<Rightarrow> json" where
  "text_of event = field (field event ''payload'') ''text''"

definition message_of :: "json \<Rightarrow> json" where
  "message_of event = field (field event ''payload'') ''message''"

definition keeps :: "json \<Rightarrow> bool" where
  "keeps event =
     (field event ''type'' = JStr ''stderr''
      \<or> (case text_of event of JStr s \<Rightarrow> sublist ''error'' (toLowerCase s) | _ \<Rightarrow> False))"

text \<open>
  The message of a kept event, with "present" read as "not absent": the text if present,
  else the payload message if present, else the literal.
\<close>

definition message_if_present :: "json \<Rightarrow> json" where
  "message_if_present event =
     (if text_of event \<noteq> JUndefined then text_of event
      else if message_of event \<noteq> JUndefined then message_of event
      else JStr ''Unknown error'')"

definition errors_if_present :: "json list \<Rightarrow> json list" where
  "errors_if_present events =
     map (\<lambda>event. JObj [(''timestamp'', field event ''created''),
                        (''message'', message_if_present event)])
         (filter keeps events)"

text \<open>
  The message of a kept event, with "present" read as "truthy" (for a string: not empty).
\<close>

definition message_if_truthy :: "json \<Rightarrow> json" where
  "message_if_truthy event =
     (if truthy (text_of event) then text_of event
      else if truthy (message_of event) then message_of event
      else JStr ''Unknown error'')"

definition errors_if_truthy :: "json list \<Rightarrow> json list" where
  "errors_if_truthy events =
     map (\<lambda>event. JObj [(''timestamp'', field event ''created''),
                        (''message'', message_if_truthy event)])
         (filter keeps events)"

text \<open>
  An event as the platform's event stream delivers it: not \<^verbatim>\<open>null\<close>, and its payload
  text, when there is one, a string.
\<close>

definition event_ok :: "json \<Rightarrow> bool" where
  "event_ok event =
     (\<not> nullish event \<and> (text_of event = JUndefined \<or> is_string (text_of event)))"

definition events_call :: "string \<Rightarrow> string \<Rightarrow> outcall" where
  "events_call token ident =
     vercel_client token ''GET'' (''/v2/deployments/'' @ ident @ ''/events'') JUndefined"

text \<open>A \<^verbatim>\<open>stderr\<close> event whose text is the empty string.\<close>

definition empty_stderr :: json where
  "empty_stderr =
     JObj [(''type'', JStr ''stderr''), (''created'', JNum ''1''),
           (''payload'', JObj [(''text'', JStr [])])]"

text \<open>The event list of the specification's example, with a third event that is kept for its text.\<close>

definition example_events :: "json list" where
  "example_events =
     [JObj [(''type'', JStr ''stdout''), (''payload'', JObj [(''text'', JStr ''ok'')])],
      JObj [(''type'', JStr ''stderr''), (''payload'', JObj [(''text'', JStr ''boom'')])],
      JObj [(''type'', JStr ''stdout''), (''created'', JNum ''7''),
            (''payload'', JObj [(''text'', JStr ''Build ERROR: exit 1'')])]]"

subsection \<open>Scheme prefixes\<close>

text \<open>
  The number of scheme prefixes a string starts with: 0 for a bare host, 1 for a
  well-formed URL, 2 for a URL whose prefix is doubled.
\<close>

function scheme_prefixes :: "string \<Rightarrow> nat" where
  "scheme_prefixes s =
     (if prefix ''https://'' s then Suc (scheme_prefixes (drop 8 s)) else 0)"
  by pat_completeness auto
termination
  by (relation "measure length") (auto simp: prefix_def)

declare scheme_prefixes.simps [simp del]

definition status_call :: "string \<Rightarrow> string \<Rightarrow> outcall" where
  "status_call token ident = vercel_client token ''GET'' (''/v13/deployments/'' @ ident) JUndefined"

subsection \<open>Folding of the environment variables\<close>

text \<open>
  The value of the last entry of \<^verbatim>\<open>envVariables\<close> whose key converts to \<open>k\<close>, if there
  is such an entry.
\<close>

definition last_value :: "string \<Rightarrow> json list \<Rightarrow> json option" where
  "last_value k envs =
     (case filter (\<lambda>env. to_str (field env ''key'') = Inr k) envs of
        [] \<Rightarrow> None
      | es \<Rightarrow> Some (field (last es) ''value''))"

text \<open>
  A deployment request with two variables, each given twice: \<^verbatim>\<open>A\<close> and \<^verbatim>\<open>__proto__\<close>.
\<close>

definition example_proto_deploy :: request where
  "example_proto_deploy =
     \<lparr>req_method = ''POST'', req_path = ''/api/deploy'', x_api_key = Some ''s3cret'',
      req_body = JObj
        [(''name'', JStr ''app''),
         (''gitSource'', JObj [(''repo'', JStr ''org/repo'')]),
         (''envVariables'', JArr
            [JObj [(''key'', JStr ''A''), (''value'', JStr ''1'')],
             JObj [(''key'', JStr ''__proto__''), (''value'', JStr ''a'')],
             JObj [(''key'', JStr ''A''), (''value'', JStr ''2'')],
             JObj [(''key'', JStr ''__proto__''), (''value'', JStr ''b'')]])]\<rparr>"

subsection \<open>The guard and the middleware ahead of it\<close>

text \<open>The answer of the guard to a request it rejects.\<close>

definition unauthorized :: response where
  "unauthorized = \<lparr>status = 401, body = JObj [(''error'', JStr ''Unauthorized'')]\<rparr>"

text \<open>
  A request reaches the guard when none of the middleware ahead of it has answered: it
  is not an \<^verbatim>\<open>OPTIONS\<close> request, its body was parsed, and the client is within the rate
  limit.
\<close>

definition reaches_guard :: "inbound \<Rightarrow> bool" where
  "reaches_guard inb =
     (in_method inb \<noteq> ''OPTIONS'' \<and> \<not> isl (in_parsed inb) \<and> in_hits inb < 1000)"

text \<open>A request without the secret header that reaches the guard.\<close>

definition example_inbound :: inbound where
  "example_inbound =
     \<lparr>in_method = ''POST'', in_path = ''/api/deploy'', in_api_key = None,
      in_parsed = Inr (JObj []), in_hits = 0\<rparr>"

subsection \<open>The project listing\<close>

definition projects_call :: "string \<Rightarrow> outcall" where
  "projects_call token = vercel_client token ''GET'' ''/v9/projects'' JUndefined"

text \<open>The elements of an array in an answer.\<close>

definition elements :: "json \<Rightarrow> json list" where
  "elements x = (case x of JArr xs \<Rightarrow> xs | _ \<Rightarrow> [])"

text \<open>A project listing of the platform: one project with two deployments.\<close>

definition example_listing :: json where
  "example_listing =
     JObj [(''projects'', JArr
        [JObj [(''id'', JStr ''prj_1''), (''name'', JStr ''app''),
               (''latestDeployments'', JArr
                  [JObj [(''id'', JStr ''dpl_2''), (''url'', JStr ''app-two.vercel.app'')],
                   JObj [(''id'', JStr ''dpl_1''), (''url'', JStr ''my-app.vercel.app'')]])]])]"

section \<open>Authentication\<close>

lemma app_without_key:
  assumes "in_path inb \<noteq> ''/health''"
    and "in_api_key inb = None \<or> in_api_key inb = Some [] \<or> in_api_key inb \<noteq> MCP_API_KEY proc"
  shows "app proc router remote order inb =
           (if in_method inb = ''OPTIONS'' then json_reply 204 JUndefined
            else (case in_parsed inb of
                    Inl error \<Rightarrow> error_handler proc error
                  | Inr b \<Rightarrow>
                      if 1000 \<le> in_hits inb
                      then json_reply 429 (JStr ''Too many requests from this IP, please try again later.'')
                      else unauthorized),
            [])"
  using assms
  by (auto simp: app_def cors_def express_json_def limiter_def guard_def authenticateAPI_def
                 parsed_request_def unauthorized_def json_reply_def Let_def
           split: sum.splits)

lemma app_exempt:
  assumes "in_path inb = ''/health''" and "reaches_guard inb"
  shows "app proc router remote order inb =
           routes proc remote order (router (parsed_request inb (projr (in_parsed inb))))
             (parsed_request inb (projr (in_parsed inb)))"
  using assms
  by (auto simp: app_def cors_def express_json_def limiter_def guard_def reaches_guard_def
                 parsed_request_def split: sum.splits)

text \<open>
  C1 (as amended). A request whose path is not exactly \<^verbatim>\<open>/health\<close> and that carries
  no \<^verbatim>\<open>x-api-key\<close> header equal to the configured secret never causes an outbound
  call, and when it reaches the guard it is answered 401 with the body
  \<^verbatim>\<open>{error: 'Unauthorized'}\<close>, whatever route it would match. The middleware ahead of the
  guard answers the others: an \<^verbatim>\<open>OPTIONS\<close> request gets 204, a body that fails to parse
  500, a client over the rate limit 429. Only the exact path \<^verbatim>\<open>/health\<close> skips the
  guard: a path that merely starts with it is guarded like any other.
\<close>

theorem guard_rejects_without_secret:
  "(in_path inb \<noteq> ''/health'' \<and> (in_api_key inb = None \<or> in_api_key inb \<noteq> MCP_API_KEY proc)
      \<longrightarrow> snd (app proc router remote order inb) = []
          \<and> (reaches_guard inb \<longrightarrow> fst (app proc router remote order inb) = unauthorized)
          \<and> (in_method inb = ''OPTIONS'' \<longrightarrow> status (fst (app proc router remote order inb)) = 204)
          \<and> (in_method inb \<noteq> ''OPTIONS'' \<and> isl (in_parsed inb)
               \<longrightarrow> status (fst (app proc router remote order inb)) = 500)
          \<and> (in_method inb \<noteq> ''OPTIONS'' \<and> \<not> isl (in_parsed inb) \<and> 1000 \<le> in_hits inb
               \<longrightarrow> status (fst (app proc router remote order inb)) = 429))
   \<and> (in_path inb = ''/health'' \<and> reaches_guard inb
      \<longrightarrow> app proc router remote order inb =
            routes proc remote order (router (parsed_request inb (projr (in_parsed inb))))
              (parsed_request inb (projr (in_parsed inb))))"
proof (intro conjI impI)
  assume a: "in_path inb \<noteq> ''/health'' \<and> (in_api_key inb = None \<or> in_api_key inb \<noteq> MCP_API_KEY proc)"
  then have p: "in_path inb \<noteq> ''/health''"
    and k: "in_api_key inb = None \<or> in_api_key inb = Some [] \<or> in_api_key inb \<noteq> MCP_API_KEY proc"
    by blast+
  note A = app_without_key [OF p k, of router remote order]
  show "snd (app proc router remote order inb) = []"
    by (simp add: A)
  show "fst (app proc router remote order inb) = unauthorized" if "reaches_guard inb"
    using that by (auto simp: A reaches_guard_def split: sum.splits)
  show "status (fst (app proc router remote order inb)) = 204" if "in_method inb = ''OPTIONS''"
    using that by (simp add: A json_reply_def)
  show "status (fst (app proc router remote order inb)) = 500"
    if "in_method inb \<noteq> ''OPTIONS'' \<and> isl (in_parsed inb)"
    using that by (auto simp: A error_handler_def json_reply_def split: sum.splits)
  show "status (fst (app proc router remote order inb)) = 429"
    if "in_method inb \<noteq> ''OPTIONS'' \<and> \<not> isl (in_parsed inb) \<and> 1000 \<le> in_hits inb"
    using that by (auto simp: A json_reply_def split: sum.splits)
next
  assume "in_path inb = ''/health'' \<and> reaches_guard inb"
  then show "app proc router remote order inb =
            routes proc remote order (router (parsed_request inb (projr (in_parsed inb))))
              (parsed_request inb (projr (in_parsed inb)))"
    by (intro app_exempt) simp_all
qed

theorem guard_rejects_without_secret_witness:
  "app example_proc (\<lambda>r. Health) (\<lambda>c. Inr JNull) []
      (example_inbound\<lparr>in_method := ''GET'', in_path := ''/health/x'', in_api_key := Some ''wrong''\<rparr>)
     = (unauthorized, [])
   \<and> status (fst (app example_proc (\<lambda>r. Deploy) (\<lambda>c. Inr JNull) []
        (example_inbound\<lparr>in_method := ''OPTIONS''\<rparr>))) = 204
   \<and> status (fst (app example_proc (\<lambda>r. Deploy) (\<lambda>c. Inr JNull) []
        (example_inbound\<lparr>in_parsed := Inl (Error ''Unexpected end of JSON input'')\<rparr>))) = 500
   \<and> status (fst (app example_proc (\<lambda>r. Deploy) (\<lambda>c. Inr JNull) []
        (example_inbound\<lparr>in_hits := 1000\<rparr>))) = 429
   \<and> app example_proc (\<lambda>r. Health) (\<lambda>c. Inr JNull) []
        (example_inbound\<lparr>in_method := ''GET'', in_path := ''/health''\<rparr>)
     = routes example_proc (\<lambda>c. Inr JNull) [] Health
         \<lparr>req_method = ''GET'', req_path = ''/health'', x_api_key = None, req_body = JObj []\<rparr>"
  using guard_rejects_without_secret
          [of "example_inbound\<lparr>in_method := ''GET'', in_path := ''/health/x'', in_api_key := Some ''wrong''\<rparr>"
              example_proc "\<lambda>r. Health" "\<lambda>c. Inr JNull" "[]"]
        guard_rejects_without_secret
          [of "example_inbound\<lparr>in_method := ''OPTIONS''\<rparr>" example_proc "\<lambda>r. Deploy" "\<lambda>c. Inr JNull" "[]"]
        guard_rejects_without_secret
          [of "example_inbound\<lparr>in_parsed := Inl (Error ''Unexpected end of JSON input'')\<rparr>"
              example_proc "\<lambda>r. Deploy" "\<lambda>c. Inr JNull" "[]"]
        guard_rejects_without_secret
          [of "example_inbound\<lparr>in_hits := 1000\<rparr>" example_proc "\<lambda>r. Deploy" "\<lambda>c. Inr JNull" "[]"]
        guard_rejects_without_secret
          [of "example_inbound\<lparr>in_method := ''GET'', in_path := ''/health''\<rparr>"
              example_proc "\<lambda>r. Health" "\<lambda>c. Inr JNull" "[]"]
  by (simp add: example_proc_def example_inbound_def reaches_guard_def parsed_request_def
                prod_eq_iff)

text \<open>
  C1 as stated fails: an \<^verbatim>\<open>OPTIONS\<close> request to a guarded path, without the header, is
  answered 204 by the CORS middleware, not 401.
\<close>

theorem guard_preflight_counterexample:
  "in_path (example_inbound\<lparr>in_method := ''OPTIONS''\<rparr>) \<noteq> ''/health''
   \<and> in_api_key (example_inbound\<lparr>in_method := ''OPTIONS''\<rparr>) = None
   \<and> app example_proc (\<lambda>r. Deploy) (\<lambda>c. Inr JNull) [] (example_inbound\<lparr>in_method := ''OPTIONS''\<rparr>)
       = (\<lparr>status = 204, body = JUndefined\<rparr>, [])
   \<and> fst (app example_proc (\<lambda>r. Deploy) (\<lambda>c. Inr JNull) [] (example_inbound\<lparr>in_method := ''OPTIONS''\<rparr>))
       \<noteq> unauthorized"
  by (simp add: example_inbound_def app_def cors_def json_reply_def unauthorized_def)


text \<open>
  C10 (as amended). The guard fails closed: a request to a guarded path whose
  \<^verbatim>\<open>x-api-key\<close> header is missing or empty, under any configuration, and any request
  to a guarded path when no secret is configured (unset or empty), runs no route handler
  and causes no outbound call: the answer does not depend on the routes or on the remote
  platform, and its status is 401, or the 204, 500 or 429 of the middleware ahead of the
  guard. When the request reaches the guard the answer is the 401 body.
\<close>

theorem auth_fails_closed:
  assumes "in_path inb \<noteq> ''/health''"
    and "in_api_key inb = None \<or> in_api_key inb = Some []
           \<or> MCP_API_KEY proc = None \<or> MCP_API_KEY proc = Some []"
  shows "snd (app proc router remote order inb) = []
         \<and> (status (fst (app proc router remote order inb)) = 401
              \<or> status (fst (app proc router remote order inb)) = 204
              \<or> status (fst (app proc router remote order inb)) = 500
              \<or> status (fst (app proc router remote order inb)) = 429)
         \<and> (reaches_guard inb \<longrightarrow> app proc router remote order inb = (unauthorized, []))
         \<and> (\<forall>router' remote' order'.
               app proc router' remote' order' inb = app proc router remote order inb)"
proof -
  from assms(2)
  have k: "in_api_key inb = None \<or> in_api_key inb = Some [] \<or> in_api_key inb \<noteq> MCP_API_KEY proc"
    by auto
  note A = app_without_key [OF assms(1) k]
  have 1: "snd (app proc router remote order inb) = []"
    by (simp add: A)
  have 2: "status (fst (app proc router remote order inb)) = 401
              \<or> status (fst (app proc router remote order inb)) = 204
              \<or> status (fst (app proc router remote order inb)) = 500
              \<or> status (fst (app proc router remote order inb)) = 429"
    by (simp add: A json_reply_def error_handler_def unauthorized_def split: sum.splits)
  have 3: "app proc router remote order inb = (unauthorized, [])" if "reaches_guard inb"
    using that by (auto simp: A reaches_guard_def split: sum.splits)
  have 4: "app proc router' remote' order' inb = app proc router remote order inb"
    for router' remote' order'
    by (simp only: A)
  from 1 2 3 4 show ?thesis by blast
qed

theorem auth_fails_closed_witness:
  "app (example_proc\<lparr>MCP_API_KEY := Some []\<rparr>) (\<lambda>r. Deploy) (\<lambda>c. Inr JNull) []
       (example_inbound\<lparr>in_api_key := Some []\<rparr>)
     = (unauthorized, [])
   \<and> app (example_proc\<lparr>MCP_API_KEY := None\<rparr>) (\<lambda>r. Deploy) (\<lambda>c. Inr JNull) []
       (example_inbound\<lparr>in_api_key := Some ''guess''\<rparr>)
     = (unauthorized, [])"
proof -
  have p1: "in_path (example_inbound\<lparr>in_api_key := Some []\<rparr>) \<noteq> ''/health''"
    and p2: "in_path (example_inbound\<lparr>in_api_key := Some ''guess''\<rparr>) \<noteq> ''/health''"
    by (simp_all add: example_inbound_def)
  have k1: "in_api_key (example_inbound\<lparr>in_api_key := Some []\<rparr>) = None
            \<or> in_api_key (example_inbound\<lparr>in_api_key := Some []\<rparr>) = Some []
            \<or> MCP_API_KEY (example_proc\<lparr>MCP_API_KEY := Some []\<rparr>) = None
            \<or> MCP_API_KEY (example_proc\<lparr>MCP_API_KEY := Some []\<rparr>) = Some []"
    by simp
  have k2: "in_api_key (example_inbound\<lparr>in_api_key := Some ''guess''\<rparr>) = None
            \<or> in_api_key (example_inbound\<lparr>in_api_key := Some ''guess''\<rparr>) = Some []
            \<or> MCP_API_KEY (example_proc\<lparr>MCP_API_KEY := None\<rparr>) = None
            \<or> MCP_API_KEY (example_proc\<lparr>MCP_API_KEY := None\<rparr>) = Some []"
    by simp
  have g1: "reaches_guard (example_inbound\<lparr>in_api_key := Some []\<rparr>)"
    and g2: "reaches_guard (example_inbound\<lparr>in_api_key := Some ''guess''\<rparr>)"
    by (simp_all add: reaches_guard_def example_inbound_def)
  show ?thesis
    using auth_fails_closed [OF p1 k1, of "\<lambda>r. Deploy" "\<lambda>c. Inr JNull" "[]"]
          auth_fails_closed [OF p2 k2, of "\<lambda>r. Deploy" "\<lambda>c. Inr JNull" "[]"] g1 g2
    by blast
qed

text \<open>
  C10 as stated fails: with no secret configured, a request to a guarded path whose body
  does not parse is answered 500 by the error handler, and one from a client over the
  rate limit 429, not 401.
\<close>

theorem fail_closed_counterexample:
  "in_path (example_inbound\<lparr>in_parsed := Inl (Error ''Unexpected end of JSON input'')\<rparr>) \<noteq> ''/health''
   \<and> in_api_key (example_inbound\<lparr>in_parsed := Inl (Error ''Unexpected end of JSON input'')\<rparr>) = None
   \<and> app (example_proc\<lparr>MCP_API_KEY := None\<rparr>) (\<lambda>r. Deploy) (\<lambda>c. Inr JNull) []
        (example_inbound\<lparr>in_parsed := Inl (Error ''Unexpected end of JSON input'')\<rparr>)
       = (\<lparr>status = 500,
           body = JObj [(''error'', JStr ''Internal server error''), (''message'', JUndefined)]\<rparr>, [])
   \<and> app (example_proc\<lparr>MCP_API_KEY := None\<rparr>) (\<lambda>r. Deploy) (\<lambda>c. Inr JNull) []
        (example_inbound\<lparr>in_hits := 1000\<rparr>)
       = (\<lparr>status = 429,
           body = JStr ''Too many requests from this IP, please try again later.''\<rparr>, [])"
  by (simp add: example_inbound_def example_proc_def app_def cors_def express_json_def limiter_def
                error_handler_def json_reply_def parsed_request_def)

section \<open>Liveness probe\<close>

lemma health_no_token:
  assumes "VERCEL_TOKEN proc = None \<or> VERCEL_TOKEN proc = Some []"
  shows "health_handler proc remote =
           (json_reply 503 (JObj
             [(''status'', JStr ''unhealthy''), (''uptime'', uptime proc),
              (''timestamp'', JStr (now_iso proc)),
              (''vercel'', JObj [(''connected'', JBool False),
                                 (''error'', JStr ''VERCEL_TOKEN not configured'')])]), [])"
  using assms by (auto simp: health_handler_def health_try_def getVercelClient_def)

lemma health_token:
  assumes "VERCEL_TOKEN proc = Some t" and "t \<noteq> []"
  shows "health_handler proc remote =
           (case remote (identity_call t) of
              Inl e \<Rightarrow>
                (json_reply 503 (JObj
                   [(''status'', JStr ''unhealthy''), (''uptime'', uptime proc),
                    (''timestamp'', JStr (now_iso proc)),
                    (''vercel'', JObj [(''connected'', JBool False), (''error'', JStr (message e))])]),
                 [identity_call t])
            | Inr data \<Rightarrow>
                if nullish data then
                  (json_reply 503 (JObj
                     [(''status'', JStr ''unhealthy''), (''uptime'', uptime proc),
                      (''timestamp'', JStr (now_iso proc)),
                      (''vercel'', JObj [(''connected'', JBool False),
                                         (''error'', JStr (message (cannot_read data ''user'')))])]),
                   [identity_call t])
                else if nullish (field data ''user'') then
                  (json_reply 503 (JObj
                     [(''status'', JStr ''unhealthy''), (''uptime'', uptime proc),
                      (''timestamp'', JStr (now_iso proc)),
                      (''vercel'', JObj [(''connected'', JBool False),
                                         (''error'', JStr (message (cannot_read (field data ''user'') ''username'')))])]),
                   [identity_call t])
                else
                  (json_reply 200 (JObj
                     [(''status'', JStr ''healthy''), (''uptime'', uptime proc),
                      (''timestamp'', JStr (now_iso proc)),
                      (''vercel'', JObj [(''connected'', JBool True),
                                         (''user'', field (field data ''user'') ''username'')])]),
                   [identity_call t]))"
  using assms
  by (simp add: health_handler_def health_try_def getVercelClient_def identity_call_def
                get_prop_def Let_def split: sum.splits)


lemma unhealthy_shape_reply:
  "unhealthy_shape (json_reply 503 (JObj
       [(''status'', JStr ''unhealthy''), (''uptime'', u), (''timestamp'', ts),
        (''vercel'', JObj [(''connected'', JBool False), (''error'', JStr m)])]))"
  by (simp add: unhealthy_shape_def json_reply_def is_string_def)

lemma healthy_shape_reply:
  "healthy_shape (json_reply 200 (JObj
       [(''status'', JStr ''healthy''), (''uptime'', u), (''timestamp'', ts),
        (''vercel'', JObj [(''connected'', JBool True), (''user'', n)])]))"
  by (simp add: healthy_shape_def json_reply_def)

text \<open>
  C6. The liveness probe answers every outcome of the identity call with one of two
  bodies and never lets an exception pass: 200 with \<^verbatim>\<open>status: 'healthy'\<close> and
  \<^verbatim>\<open>vercel.connected: true\<close> (and the user name of the identity returned) when the call
  succeeds and returns an identity; 503 with \<^verbatim>\<open>status: 'unhealthy'\<close>,
  \<^verbatim>\<open>vercel.connected: false\<close> and the error message when the call is rejected, when the
  answer carries no identity, and when no token is configured (then without any
  outbound call).
\<close>

theorem health_never_fails_hard:
  "(healthy_shape (fst (health_handler proc remote))
      \<or> unhealthy_shape (fst (health_handler proc remote)))
   \<and> (\<forall>t data. VERCEL_TOKEN proc = Some t \<and> t \<noteq> [] \<and> remote (identity_call t) = Inr data
          \<and> \<not> nullish data \<and> \<not> nullish (field data ''user'')
        \<longrightarrow> healthy_shape (fst (health_handler proc remote))
            \<and> field (field (body (fst (health_handler proc remote))) ''vercel'') ''user''
                = field (field data ''user'') ''username'')
   \<and> (\<forall>t e. VERCEL_TOKEN proc = Some t \<and> t \<noteq> [] \<and> remote (identity_call t) = Inl e
        \<longrightarrow> unhealthy_shape (fst (health_handler proc remote))
            \<and> field (field (body (fst (health_handler proc remote))) ''vercel'') ''error''
                = JStr (message e))
   \<and> (\<forall>t data. VERCEL_TOKEN proc = Some t \<and> t \<noteq> [] \<and> remote (identity_call t) = Inr data
          \<and> (nullish data \<or> nullish (field data ''user''))
        \<longrightarrow> unhealthy_shape (fst (health_handler proc remote)))
   \<and> (VERCEL_TOKEN proc = None \<or> VERCEL_TOKEN proc = Some []
        \<longrightarrow> unhealthy_shape (fst (health_handler proc remote))
            \<and> snd (health_handler proc remote) = [])"
proof (intro conjI allI impI)
  show "healthy_shape (fst (health_handler proc remote))
          \<or> unhealthy_shape (fst (health_handler proc remote))"
  proof (cases "VERCEL_TOKEN proc = None \<or> VERCEL_TOKEN proc = Some []")
    case True
    then show ?thesis
      by (simp only: health_no_token fst_conv unhealthy_shape_reply simp_thms)
  next
    case False
    then obtain t where t: "VERCEL_TOKEN proc = Some t" "t \<noteq> []" by auto
    show ?thesis
      by (cases "remote (identity_call t)")
         (simp_all add: health_token [OF t] unhealthy_shape_reply healthy_shape_reply)
  qed
next
  fix t data
  assume a: "VERCEL_TOKEN proc = Some t \<and> t \<noteq> [] \<and> remote (identity_call t) = Inr data
             \<and> \<not> nullish data \<and> \<not> nullish (field data ''user'')"
  then have t: "VERCEL_TOKEN proc = Some t" "t \<noteq> []" by simp_all
  from a show "healthy_shape (fst (health_handler proc remote))"
    by (simp add: health_token [OF t] healthy_shape_reply)
  from a show "field (field (body (fst (health_handler proc remote))) ''vercel'') ''user''
                 = field (field data ''user'') ''username''"
    by (simp add: health_token [OF t] json_reply_def)
next
  fix t e
  assume a: "VERCEL_TOKEN proc = Some t \<and> t \<noteq> [] \<and> remote (identity_call t) = Inl e"
  then have t: "VERCEL_TOKEN proc = Some t" "t \<noteq> []" by simp_all
  from a show "unhealthy_shape (fst (health_handler proc remote))"
    by (simp add: health_token [OF t] unhealthy_shape_reply)
  from a show "field (field (body (fst (health_handler proc remote))) ''vercel'') ''error''
                 = JStr (message e)"
    by (simp add: health_token [OF t] json_reply_def)
next
  fix t data
  assume a: "VERCEL_TOKEN proc = Some t \<and> t \<noteq> [] \<and> remote (identity_call t) = Inr data
             \<and> (nullish data \<or> nullish (field data ''user''))"
  then have t: "VERCEL_TOKEN proc = Some t" "t \<noteq> []" by simp_all
  from a show "unhealthy_shape (fst (health_handler proc remote))"
    by (auto simp add: health_token [OF t] unhealthy_shape_reply)
next
  assume a: "VERCEL_TOKEN proc = None \<or> VERCEL_TOKEN proc = Some []"
  show "unhealthy_shape (fst (health_handler proc remote))"
    by (simp only: health_no_token [OF a] fst_conv unhealthy_shape_reply)
  show "snd (health_handler proc remote) = []"
    by (simp only: health_no_token [OF a] snd_conv)
qed

theorem health_never_fails_hard_witness:
  "healthy_shape (fst (health_handler example_proc
       (\<lambda>c. Inr (JObj [(''user'', JObj [(''username'', JStr ''bob'')])]))))
   \<and> field (field (body (fst (health_handler example_proc
       (\<lambda>c. Inr (JObj [(''user'', JObj [(''username'', JStr ''bob'')])]))))) ''vercel'') ''user''
       = JStr ''bob''
   \<and> unhealthy_shape (fst (health_handler example_proc
       (\<lambda>c. Inl (AxiosError ''Request failed with status code 403'' (JObj [])))))
   \<and> unhealthy_shape (fst (health_handler example_proc (\<lambda>c. Inr (JObj []))))
   \<and> unhealthy_shape (fst (health_handler (example_proc\<lparr>VERCEL_TOKEN := None\<rparr>) (\<lambda>c. Inr JNull)))"
  using health_never_fails_hard
          [of example_proc "\<lambda>c. Inr (JObj [(''user'', JObj [(''username'', JStr ''bob'')])])"]
        health_never_fails_hard
          [of example_proc "\<lambda>c. Inl (AxiosError ''Request failed with status code 403'' (JObj []))"]
        health_never_fails_hard [of example_proc "\<lambda>c. Inr (JObj [])"]
        health_never_fails_hard [of "example_proc\<lparr>VERCEL_TOKEN := None\<rparr>" "\<lambda>c. Inr JNull"]
  by (simp add: example_proc_def nullish_def)

section \<open>Trigger deployment\<close>

lemma deploy_rejected_name:
  assumes "\<not> nullish b" and "\<not> truthy (field b ''name'')"
  shows "deploy_try proc remote b =
           (Inr (json_reply 400 (JObj [(''error'', JStr ''Project name is required'')])), [])"
  using assms by (simp add: deploy_try_def destructure_def Let_def)

lemma deploy_rejected_source:
  assumes "truthy (field b ''name'')"
    and "\<not> truthy (field b ''gitSource'') \<or> \<not> truthy (field (field b ''gitSource'') ''repo'')"
  shows "deploy_try proc remote b =
           (Inr (json_reply 400 (JObj [(''error'', JStr ''Git source is required'')])), [])"
proof -
  from assms(1) have "\<not> nullish b" by (auto simp: nullish_def)
  with assms show ?thesis by (auto simp add: deploy_try_def destructure_def Let_def)
qed

lemma deploy_accepted:
  assumes "truthy (field b ''name'')" and "truthy (field b ''gitSource'')"
    and "truthy (field (field b ''gitSource'') ''repo'')"
  shows "deploy_try proc remote b =
     (case getVercelClient proc of
        Inl e \<Rightarrow> (Inl e, [])
      | Inr client \<Rightarrow>
          (case deploymentData (field b ''name'') (field b ''gitSource'') (field b ''framework'')
                  (field b ''buildCommand'') (field b ''envVariables'') of
             Inl e \<Rightarrow> (Inl e, [])
           | Inr dd \<Rightarrow>
               (case remote (client ''POST'' ''/v13/deployments'' dd) of
                  Inl e \<Rightarrow> (Inl e, [client ''POST'' ''/v13/deployments'' dd])
                | Inr data \<Rightarrow>
                    (case get_prop data ''id'' of
                       Inl e \<Rightarrow> (Inl e, [client ''POST'' ''/v13/deployments'' dd])
                     | Inr ident \<Rightarrow>
                         (case https_url (field data ''url'') of
                            Inl e \<Rightarrow> (Inl e, [client ''POST'' ''/v13/deployments'' dd])
                          | Inr u \<Rightarrow>
                              (Inr (json_reply 200 (JObj
                                 [(''success'', JBool True),
                                  (''deployment'', JObj
                                     [(''id'', ident),
                                      (''url'', JStr u),
                                      (''status'', field data ''readyState''),
                                      (''inspectorUrl'', field data ''inspectorUrl'')])])),
                               [client ''POST'' ''/v13/deployments'' dd]))))))"
proof -
  from assms(1) have "\<not> nullish b" by (auto simp: nullish_def)
  with assms show ?thesis
    by (simp add: deploy_try_def destructure_def Let_def split: sum.splits)
qed

lemma deploy_accepted_calls:
  assumes "truthy (field b ''name'')" and "truthy (field b ''gitSource'')"
    and "truthy (field (field b ''gitSource'') ''repo'')"
  shows "snd (deploy_try proc remote b) =
     (case getVercelClient proc of
        Inl e \<Rightarrow> []
      | Inr client \<Rightarrow>
          (case deploymentData (field b ''name'') (field b ''gitSource'') (field b ''framework'')
                  (field b ''buildCommand'') (field b ''envVariables'') of
             Inl e \<Rightarrow> []
           | Inr dd \<Rightarrow> [client ''POST'' ''/v13/deployments'' dd]))"
  by (simp add: deploy_accepted [OF assms] split: sum.splits)

lemma snd_catch_500: "snd (catch_500 what r) = snd r"
  by (simp add: catch_500_def split: sum.splits)

lemma deploymentData_fields:
  assumes "deploymentData n gs fw bc ev = Inr dd"
  shows "field dd ''name'' = n"
    and "field dd ''target'' = JStr ''preview''"
    and "field dd ''gitSource'' =
           JObj [(''type'', js_or (field gs ''type'') (JStr ''github'')),
                 (''repo'', field gs ''repo''),
                 (''ref'', js_or (field gs ''ref'') (JStr ''main''))]"
  using assms
  by (auto simp: deploymentData_def Let_def split: json.splits sum.splits)

lemma reduce_env_total:
  "\<forall>e \<in> set envs. \<not> nullish e \<and> is_string (field e ''key'')
     \<Longrightarrow> \<exists>acc'. reduce_env acc envs = Inr acc'"
  by (induction envs arbitrary: acc)
     (auto simp add: get_prop_def is_string_def split: json.splits)

lemma deploymentData_total:
  assumes "\<forall>envs. ev = JArr envs
             \<longrightarrow> (\<forall>e \<in> set envs. \<not> nullish e \<and> is_string (field e ''key''))"
  shows "\<exists>dd. deploymentData n gs fw bc ev = Inr dd"
proof (cases ev)
  case (JArr envs)
  with assms have "\<forall>e \<in> set envs. \<not> nullish e \<and> is_string (field e ''key'')" by simp
  from reduce_env_total [OF this] obtain acc' where "reduce_env ([], None) envs = Inr acc'"
    by blast
  with JArr show ?thesis by (simp add: deploymentData_def Let_def)
qed (simp_all add: deploymentData_def Let_def)


text \<open>
  C3. A trigger-deployment request (with a parsed body) whose \<^verbatim>\<open>name\<close> is absent or
  empty, or whose \<^verbatim>\<open>gitSource\<close> is absent, or whose \<^verbatim>\<open>gitSource.repo\<close> is absent or
  empty (or, more generally, any of them falsy) is answered 400 with the validation
  message, and no outbound call is made.
\<close>

theorem deploy_validation_rejects:
  assumes "\<not> nullish (req_body req)"
    and "\<not> truthy (field (req_body req) ''name'')
         \<or> \<not> truthy (field (req_body req) ''gitSource'')
         \<or> \<not> truthy (field (field (req_body req) ''gitSource'') ''repo'')"
  shows "deploy_handler proc remote req =
           (\<lparr>status = 400,
             body = JObj [(''error'',
                      JStr (if \<not> truthy (field (req_body req) ''name'')
                            then ''Project name is required'' else ''Git source is required''))]\<rparr>,
            [])"
proof (cases "truthy (field (req_body req) ''name'')")
  case False
  from deploy_rejected_name [OF assms(1) False] False show ?thesis
    by (simp add: deploy_handler_def catch_500_def json_reply_def)
next
  case True
  with assms(2)
  have "\<not> truthy (field (req_body req) ''gitSource'')
        \<or> \<not> truthy (field (field (req_body req) ''gitSource'') ''repo'')"
    by blast
  from deploy_rejected_source [OF True this] True show ?thesis
    by (simp add: deploy_handler_def catch_500_def json_reply_def)
qed

theorem deploy_validation_rejects_witness:
  "deploy_handler example_proc (\<lambda>c. Inr (JObj [(''id'', JStr ''dpl_1'')]))
      \<lparr>req_method = ''POST'', req_path = ''/api/deploy'', x_api_key = Some ''s3cret'',
       req_body = JObj [(''gitSource'', JObj [(''repo'', JStr ''org/repo'')])]\<rparr>
     = (\<lparr>status = 400, body = JObj [(''error'', JStr ''Project name is required'')]\<rparr>, [])
   \<and> deploy_handler example_proc (\<lambda>c. Inr (JObj [(''id'', JStr ''dpl_1'')]))
      \<lparr>req_method = ''POST'', req_path = ''/api/deploy'', x_api_key = Some ''s3cret'',
       req_body = JObj [(''name'', JStr ''app''), (''gitSource'', JObj [(''repo'', JStr [])])]\<rparr>
     = (\<lparr>status = 400, body = JObj [(''error'', JStr ''Git source is required'')]\<rparr>, [])"
  using deploy_validation_rejects
          [of "\<lparr>req_method = ''POST'', req_path = ''/api/deploy'', x_api_key = Some ''s3cret'',
                req_body = JObj [(''gitSource'', JObj [(''repo'', JStr ''org/repo'')])]\<rparr>"
              example_proc "\<lambda>c. Inr (JObj [(''id'', JStr ''dpl_1'')])"]
        deploy_validation_rejects
          [of "\<lparr>req_method = ''POST'', req_path = ''/api/deploy'', x_api_key = Some ''s3cret'',
                req_body = JObj [(''name'', JStr ''app''), (''gitSource'', JObj [(''repo'', JStr [])])]\<rparr>"
              example_proc "\<lambda>c. Inr (JObj [(''id'', JStr ''dpl_1'')])"]
  by (simp add: nullish_def)

text \<open>
  C2. When a trigger-deployment request passes validation, every outbound call the
  handler makes is the POST to \<^verbatim>\<open>/v13/deployments\<close>, and its payload has
  \<^verbatim>\<open>target: 'preview'\<close> whatever the caller sent, \<^verbatim>\<open>gitSource.type\<close> equal to the
  caller's value or \<^verbatim>\<open>'github'\<close> when that is absent (or falsy), \<^verbatim>\<open>gitSource.ref\<close> equal
  to the caller's value or \<^verbatim>\<open>'main'\<close> when that is absent (or falsy), and the caller's
  \<^verbatim>\<open>repo\<close> and \<^verbatim>\<open>name\<close>. There is at most one such call, and exactly one when the
  token is configured and every entry of \<^verbatim>\<open>envVariables\<close> is an object with a string
  \<^verbatim>\<open>key\<close>.
\<close>

theorem deploy_payload_defaults:
  assumes "truthy (field (req_body req) ''name'')"
    and "truthy (field (req_body req) ''gitSource'')"
    and "truthy (field (field (req_body req) ''gitSource'') ''repo'')"
  shows "(\<forall>c \<in> set (snd (deploy_handler proc remote req)).
            verb c = ''POST'' \<and> url c = ''/v13/deployments''
            \<and> field (payload c) ''target'' = JStr ''preview''
            \<and> field (field (payload c) ''gitSource'') ''type''
                = (if truthy (field (field (req_body req) ''gitSource'') ''type'')
                   then field (field (req_body req) ''gitSource'') ''type'' else JStr ''github'')
            \<and> field (field (payload c) ''gitSource'') ''ref''
                = (if truthy (field (field (req_body req) ''gitSource'') ''ref'')
                   then field (field (req_body req) ''gitSource'') ''ref'' else JStr ''main'')
            \<and> field (field (payload c) ''gitSource'') ''repo''
                = field (field (req_body req) ''gitSource'') ''repo''
            \<and> field (payload c) ''name'' = field (req_body req) ''name'')
         \<and> length (snd (deploy_handler proc remote req)) \<le> 1
         \<and> ((\<exists>t. VERCEL_TOKEN proc = Some t \<and> t \<noteq> [])
              \<and> (\<forall>envs. field (req_body req) ''envVariables'' = JArr envs
                    \<longrightarrow> (\<forall>e \<in> set envs. \<not> nullish e \<and> is_string (field e ''key'')))
            \<longrightarrow> length (snd (deploy_handler proc remote req)) = 1)"
proof -
  let ?b = "req_body req"
  let ?dd = "deploymentData (field ?b ''name'') (field ?b ''gitSource'') (field ?b ''framework'')
               (field ?b ''buildCommand'') (field ?b ''envVariables'')"
  have calls: "snd (deploy_handler proc remote req) =
     (case getVercelClient proc of
        Inl e \<Rightarrow> []
      | Inr client \<Rightarrow>
          (case ?dd of Inl e \<Rightarrow> [] | Inr dd \<Rightarrow> [client ''POST'' ''/v13/deployments'' dd]))"
    by (simp only: deploy_handler_def snd_catch_500 deploy_accepted_calls [OF assms])
  have sent: "verb c = ''POST'' \<and> url c = ''/v13/deployments'' \<and> ?dd = Inr (payload c)"
    if "c \<in> set (snd (deploy_handler proc remote req))" for c
    using that unfolding calls
    by (auto simp: getVercelClient_def vercel_client_def split: sum.splits option.splits if_splits)
  have part1: "\<forall>c \<in> set (snd (deploy_handler proc remote req)).
            verb c = ''POST'' \<and> url c = ''/v13/deployments''
            \<and> field (payload c) ''target'' = JStr ''preview''
            \<and> field (field (payload c) ''gitSource'') ''type''
                = (if truthy (field (field ?b ''gitSource'') ''type'')
                   then field (field ?b ''gitSource'') ''type'' else JStr ''github'')
            \<and> field (field (payload c) ''gitSource'') ''ref''
                = (if truthy (field (field ?b ''gitSource'') ''ref'')
                   then field (field ?b ''gitSource'') ''ref'' else JStr ''main'')
            \<and> field (field (payload c) ''gitSource'') ''repo'' = field (field ?b ''gitSource'') ''repo''
            \<and> field (payload c) ''name'' = field ?b ''name''"
  proof
    fix c assume "c \<in> set (snd (deploy_handler proc remote req))"
    from sent [OF this] have v: "verb c = ''POST''" "url c = ''/v13/deployments''"
      and dd: "?dd = Inr (payload c)" by simp_all
    from deploymentData_fields [OF dd] v
    show "verb c = ''POST'' \<and> url c = ''/v13/deployments''
            \<and> field (payload c) ''target'' = JStr ''preview''
            \<and> field (field (payload c) ''gitSource'') ''type''
                = (if truthy (field (field ?b ''gitSource'') ''type'')
                   then field (field ?b ''gitSource'') ''type'' else JStr ''github'')
            \<and> field (field (payload c) ''gitSource'') ''ref''
                = (if truthy (field (field ?b ''gitSource'') ''ref'')
                   then field (field ?b ''gitSource'') ''ref'' else JStr ''main'')
            \<and> field (field (payload c) ''gitSource'') ''repo'' = field (field ?b ''gitSource'') ''repo''
            \<and> field (payload c) ''name'' = field ?b ''name''"
      by (simp add: js_or_def)
  qed
  have part2: "length (snd (deploy_handler proc remote req)) \<le> 1"
    unfolding calls by (simp split: sum.splits)
  have part3: "length (snd (deploy_handler proc remote req)) = 1"
    if "(\<exists>t. VERCEL_TOKEN proc = Some t \<and> t \<noteq> [])
        \<and> (\<forall>envs. field ?b ''envVariables'' = JArr envs
              \<longrightarrow> (\<forall>e \<in> set envs. \<not> nullish e \<and> is_string (field e ''key'')))"
  proof -
    from that obtain client where "getVercelClient proc = Inr client"
      by (auto simp: getVercelClient_def)
    moreover from that deploymentData_total obtain dd where "?dd = Inr dd" by blast
    ultimately show ?thesis unfolding calls by simp
  qed
  from part1 part2 part3 show ?thesis by blast
qed


theorem deploy_payload_defaults_witness:
  "length (snd (deploy_handler example_proc (\<lambda>c. Inr (JObj [(''id'', JStr ''dpl_1'')])) example_deploy)) = 1
   \<and> field (payload (hd (snd (deploy_handler example_proc
          (\<lambda>c. Inr (JObj [(''id'', JStr ''dpl_1'')])) example_deploy)))) ''target'' = JStr ''preview''
   \<and> field (field (payload (hd (snd (deploy_handler example_proc
          (\<lambda>c. Inr (JObj [(''id'', JStr ''dpl_1'')])) example_deploy)))) ''gitSource'') ''type''
        = JStr ''github''
   \<and> field (field (payload (hd (snd (deploy_handler example_proc
          (\<lambda>c. Inr (JObj [(''id'', JStr ''dpl_1'')])) example_deploy)))) ''gitSource'') ''ref''
        = JStr ''main''"
proof -
  let ?calls = "snd (deploy_handler example_proc (\<lambda>c. Inr (JObj [(''id'', JStr ''dpl_1'')])) example_deploy)"
  have h1: "truthy (field (req_body example_deploy) ''name'')"
    and h2: "truthy (field (req_body example_deploy) ''gitSource'')"
    and h3: "truthy (field (field (req_body example_deploy) ''gitSource'') ''repo'')"
    by (simp_all add: example_deploy_def)
  note T = deploy_payload_defaults [OF h1 h2 h3, of example_proc "\<lambda>c. Inr (JObj [(''id'', JStr ''dpl_1'')])"]
  from T have len: "length ?calls = 1"
    by (simp add: example_proc_def example_deploy_def nullish_def is_string_def)
  then have "hd ?calls \<in> set ?calls" by (cases ?calls) simp_all
  with T have "field (payload (hd ?calls)) ''target'' = JStr ''preview''"
    and "field (field (payload (hd ?calls)) ''gitSource'') ''type''
           = (if truthy (field (field (req_body example_deploy) ''gitSource'') ''type'')
              then field (field (req_body example_deploy) ''gitSource'') ''type'' else JStr ''github'')"
    and "field (field (payload (hd ?calls)) ''gitSource'') ''ref''
           = (if truthy (field (field (req_body example_deploy) ''gitSource'') ''ref'')
              then field (field (req_body example_deploy) ''gitSource'') ''ref'' else JStr ''main'')"
    by blast+
  with len show ?thesis by (simp add: example_deploy_def)
qed

section \<open>Environment variables\<close>

lemma promise_all_rejects:
  assumes "\<exists>r \<in> set rs. isl r"
  shows "\<exists>e. promise_all order rs = Inl e \<and> Inl e \<in> set rs"
proof (cases "filter (\<lambda>i. i < length rs \<and> isl (rs ! i)) order")
  case (Cons i rest)
  then have "i \<in> set (filter (\<lambda>i. i < length rs \<and> isl (rs ! i)) order)" by simp
  then have i: "i < length rs" "isl (rs ! i)" by simp_all
  then have "Inl (projl (rs ! i)) \<in> set rs" by simp
  with Cons show ?thesis by (auto simp: promise_all_def)
next
  case Nil
  from assms obtain r where "r \<in> set rs" "isl r" by blast
  then have "filter isl rs \<noteq> []" by (auto simp: filter_empty_conv)
  then obtain r' rest where f: "filter isl rs = r' # rest" by (cases "filter isl rs") auto
  then have "r' \<in> set (filter isl rs)" by simp
  then have "r' \<in> set rs" "isl r'" by simp_all
  then have "Inl (projl r') \<in> set rs" by simp
  with Nil f show ?thesis by (auto simp: promise_all_def)
qed

lemma env_rejected:
  assumes "\<not> nullish b"
    and "\<not> truthy (field b ''projectId'') \<or> \<not> truthy (field b ''env'')"
  shows "env_try proc remote order b =
           (Inr (json_reply 400 (JObj
              [(''error'', JStr ''Project ID and environment variables are required'')])), [])"
  using assms by (auto simp: env_try_def destructure_def Let_def)

lemma env_posts_started:
  assumes "to_str projectId = Inr p"
  shows "env_posts client projectId entries started =
           (None, started @ map (env_write client p) entries)"
  using assms by (induction entries arbitrary: started) simp_all

lemma env_posts_empty: "env_posts client projectId [] [] = (None, [])"
  by simp

lemma env_accepted:
  assumes "truthy (field b ''projectId'')" and "truthy (field b ''env'')"
  shows "env_try proc remote order b =
     (case getVercelClient proc of
        Inl e \<Rightarrow> (Inl e, [])
      | Inr client \<Rightarrow>
          (case object_entries (field b ''env'') of
             Inl e \<Rightarrow> (Inl e, [])
           | Inr entries \<Rightarrow>
               (case env_posts client (field b ''projectId'') entries [] of
                  (Some e, calls) \<Rightarrow> (Inl e, calls)
                | (None, calls) \<Rightarrow>
                    (case promise_all order (map remote calls) of
                       Inl e \<Rightarrow> (Inl e, calls)
                     | Inr rs \<Rightarrow>
                         (Inr (json_reply 200 (JObj
                            [(''success'', JBool True),
                             (''message'', JStr ''Environment variables set successfully'')])),
                          calls)))))"
proof -
  from assms(1) have "\<not> nullish b" by (auto simp: nullish_def)
  with assms show ?thesis
    by (simp add: env_try_def destructure_def Let_def split: sum.splits)
qed

lemma getVercelClient_token:
  "VERCEL_TOKEN proc = Some t \<Longrightarrow> t \<noteq> [] \<Longrightarrow> getVercelClient proc = Inr (vercel_client t)"
  by (simp add: getVercelClient_def)

text \<open>
  C4. The environment-variable handler issues one write per entry (to the project the
  request names, here with the path segment \<open>p\<close>). When any one of these
  writes is rejected, the caller gets the 500 error envelope, whose details come from one
  of the rejected writes, and nothing about the writes that succeeded; the outbound
  calls are exactly the writes, all of them and no compensating call. The writes depend
  on the request alone: repeating the request issues the same writes again, whatever the
  platform answered before.
\<close>

theorem env_partial_failure:
  assumes valid: "truthy (field (req_body req) ''projectId'')" "truthy (field (req_body req) ''env'')"
    and token: "VERCEL_TOKEN proc = Some t" "t \<noteq> []"
    and entries: "object_entries (field (req_body req) ''env'') = Inr entries"
    and path: "to_str (field (req_body req) ''projectId'') = Inr p"
    and writes: "writes = map (env_write (vercel_client t) p) entries"
    and fails: "\<exists>c \<in> set writes. isl (remote c)"
  shows "(\<exists>c \<in> set writes. \<exists>e. remote c = Inl e
            \<and> fst (env_handler proc remote order req) =
                \<lparr>status = 500,
                 body = JObj [(''error'', JStr ''Failed to set environment variables''),
                              (''details'', error_details e)]\<rparr>)
         \<and> snd (env_handler proc remote order req) = writes
         \<and> (\<forall>remote' order'. snd (env_handler proc remote' order' req) = writes)"
proof -
  let ?b = "req_body req"
  have tr: "env_try proc r ord ?b =
              (case promise_all ord (map r writes) of
                 Inl e \<Rightarrow> (Inl e, writes)
               | Inr rs \<Rightarrow>
                   (Inr (json_reply 200 (JObj
                      [(''success'', JBool True),
                       (''message'', JStr ''Environment variables set successfully'')])), writes))"
    for r ord
    unfolding writes
    by (simp add: env_accepted [OF valid] getVercelClient_token [OF token] entries
                  env_posts_started [OF path])
  have calls: "snd (env_handler proc r ord req) = writes" for r ord
    by (simp add: env_handler_def snd_catch_500 tr split: sum.splits)
  from fails have "\<exists>x \<in> set (map remote writes). isl x" by auto
  from promise_all_rejects [OF this]
  obtain e where e: "promise_all order (map remote writes) = Inl e" "Inl e \<in> set (map remote writes)"
    by blast
  from e(2) obtain c where c: "c \<in> set writes" "remote c = Inl e" by auto
  from e(1) have "fst (env_handler proc remote order req) =
                \<lparr>status = 500,
                 body = JObj [(''error'', JStr ''Failed to set environment variables''),
                              (''details'', error_details e)]\<rparr>"
    by (simp add: env_handler_def catch_500_def tr failed_def json_reply_def)
  with c calls show ?thesis by blast
qed


theorem env_partial_failure_witness:
  "fst (env_handler example_proc rejects_B [1, 0] example_env) =
      \<lparr>status = 500,
       body = JObj [(''error'', JStr ''Failed to set environment variables''),
                    (''details'', JStr ''bad value'')]\<rparr>
   \<and> snd (env_handler example_proc rejects_B [1, 0] example_env) =
      [env_write (vercel_client ''tok'') ''prj_1'' (''A'', JStr ''1''),
       env_write (vercel_client ''tok'') ''prj_1'' (''B'', JStr ''2'')]
   \<and> snd (env_handler example_proc (\<lambda>c. Inr JNull) [] example_env) =
      snd (env_handler example_proc rejects_B [1, 0] example_env)"
proof -
  let ?writes = "[env_write (vercel_client ''tok'') ''prj_1'' (''A'', JStr ''1''),
                  env_write (vercel_client ''tok'') ''prj_1'' (''B'', JStr ''2'')]"
  have valid: "truthy (field (req_body example_env) ''projectId'')"
      "truthy (field (req_body example_env) ''env'')"
    by (simp_all add: example_env_def)
  have token: "VERCEL_TOKEN example_proc = Some ''tok''" "''tok'' \<noteq> []"
    by (simp_all add: example_proc_def)
  have entries: "object_entries (field (req_body example_env) ''env'')
                   = Inr [(''A'', JStr ''1''), (''B'', JStr ''2'')]"
    by (simp add: example_env_def object_entries_def own_entries_def array_index_def
                  is_digit_def digits_value_def)
  have path: "to_str (field (req_body example_env) ''projectId'') = Inr ''prj_1''"
    by (simp add: example_env_def)
  have writes: "?writes = map (env_write (vercel_client ''tok'') ''prj_1'')
                            [(''A'', JStr ''1''), (''B'', JStr ''2'')]"
    by simp
  have A: "rejects_B (env_write (vercel_client ''tok'') ''prj_1'' (''A'', JStr ''1'')) = Inr (JObj [])"
    by (simp add: rejects_B_def env_write_def vercel_client_def)
  have B: "rejects_B (env_write (vercel_client ''tok'') ''prj_1'' (''B'', JStr ''2''))
             = Inl (AxiosError ''Request failed with status code 400''
                      (JObj [(''error'', JObj [(''message'', JStr ''bad value'')])]))"
    by (simp add: rejects_B_def env_write_def vercel_client_def)
  have fails: "\<exists>c \<in> set ?writes. isl (rejects_B c)"
    by (simp add: B)
  note T = env_partial_failure [OF valid token entries path writes fails, of "[1, 0]"]
  from T have 1: "fst (env_handler example_proc rejects_B [1, 0] example_env) =
      \<lparr>status = 500,
       body = JObj [(''error'', JStr ''Failed to set environment variables''),
                    (''details'', JStr ''bad value'')]\<rparr>"
    by (auto simp: A B error_details_def js_or_def)
  from T have 2: "snd (env_handler example_proc rejects_B [1, 0] example_env) = ?writes"
    and 3: "snd (env_handler example_proc (\<lambda>c. Inr JNull) [] example_env) = ?writes"
    by blast+
  from 1 2 3 show ?thesis by simp
qed

lemma status_failed: "status (failed what e) = 500"
  by (simp add: failed_def json_reply_def)

lemma env_accepted_status:
  assumes "truthy (field b ''projectId'')" and "truthy (field b ''env'')"
  shows "status (fst (catch_500 what (env_try proc remote order b))) \<noteq> 400"
  by (simp add: env_accepted [OF assms] catch_500_def status_failed json_reply_def
           split: sum.splits prod.splits option.splits)

lemma env_nullish_status:
  assumes "nullish b"
  shows "status (fst (catch_500 what (env_try proc remote order b))) = 500"
  using assms by (simp add: env_try_def destructure_def catch_500_def status_failed)

text \<open>
  C9. With a truthy \<^verbatim>\<open>projectId\<close> and \<^verbatim>\<open>env\<close> equal to \<^verbatim>\<open>{}\<close>, validation passes, no
  outbound write is issued, and with the token configured the handler returns the success
  message. The handler answers 400 exactly when the body is present and \<^verbatim>\<open>projectId\<close>
  or \<^verbatim>\<open>env\<close> is falsy, and then makes no outbound call.
\<close>

theorem env_accepts_empty_object:
  "(truthy (field (req_body req) ''projectId'') \<and> field (req_body req) ''env'' = JObj []
      \<longrightarrow> snd (env_handler proc remote order req) = []
          \<and> status (fst (env_handler proc remote order req)) \<noteq> 400
          \<and> ((\<exists>t. VERCEL_TOKEN proc = Some t \<and> t \<noteq> [])
               \<longrightarrow> fst (env_handler proc remote order req) = env_success))
   \<and> ((status (fst (env_handler proc remote order req)) = 400)
        = (\<not> nullish (req_body req)
           \<and> (\<not> truthy (field (req_body req) ''projectId'')
               \<or> \<not> truthy (field (req_body req) ''env''))))
   \<and> (status (fst (env_handler proc remote order req)) = 400
        \<longrightarrow> snd (env_handler proc remote order req) = [])"
proof -
  let ?b = "req_body req"
  have empty: "snd (env_handler proc remote order req) = []
          \<and> status (fst (env_handler proc remote order req)) \<noteq> 400
          \<and> ((\<exists>t. VERCEL_TOKEN proc = Some t \<and> t \<noteq> [])
               \<longrightarrow> fst (env_handler proc remote order req) = env_success)"
    if a: "truthy (field ?b ''projectId'') \<and> field ?b ''env'' = JObj []"
  proof -
    from a have v: "truthy (field ?b ''projectId'')" "truthy (field ?b ''env'')" by simp_all
    have oe: "object_entries (field ?b ''env'') = Inr []"
      using a by (simp add: object_entries_def own_entries_def)
    have pa: "promise_all order [] = Inr []" by (simp add: promise_all_def)
    have "snd (env_handler proc remote order req) = []"
      by (simp add: env_handler_def snd_catch_500 env_accepted [OF v] oe pa env_posts_empty
               split: sum.splits)
    moreover have "status (fst (env_handler proc remote order req)) \<noteq> 400"
      unfolding env_handler_def by (rule env_accepted_status [OF v])
    moreover have "fst (env_handler proc remote order req) = env_success"
      if "\<exists>t. VERCEL_TOKEN proc = Some t \<and> t \<noteq> []"
    proof -
      from that obtain t where "VERCEL_TOKEN proc = Some t" "t \<noteq> []" by blast
      from getVercelClient_token [OF this] show ?thesis
        by (simp add: env_handler_def catch_500_def env_accepted [OF v] oe pa env_posts_empty
                      env_success_def json_reply_def)
    qed
    ultimately show ?thesis by blast
  qed
  have iff: "(status (fst (env_handler proc remote order req)) = 400)
        = (\<not> nullish ?b \<and> (\<not> truthy (field ?b ''projectId'') \<or> \<not> truthy (field ?b ''env'')))"
  proof (cases "nullish ?b")
    case True
    from env_nullish_status [OF this] True show ?thesis by (simp add: env_handler_def)
  next
    case nn: False
    show ?thesis
    proof (cases "truthy (field ?b ''projectId'') \<and> truthy (field ?b ''env'')")
      case True
      then have "status (fst (env_handler proc remote order req)) \<noteq> 400"
        unfolding env_handler_def by (intro env_accepted_status) simp_all
      with True nn show ?thesis by simp
    next
      case False
      then have f: "\<not> truthy (field ?b ''projectId'') \<or> \<not> truthy (field ?b ''env'')" by simp
      from env_rejected [OF nn f] f nn show ?thesis
        by (simp add: env_handler_def catch_500_def json_reply_def)
    qed
  qed
  have none: "snd (env_handler proc remote order req) = []"
    if "status (fst (env_handler proc remote order req)) = 400"
  proof -
    from that iff have nn: "\<not> nullish ?b"
      and f: "\<not> truthy (field ?b ''projectId'') \<or> \<not> truthy (field ?b ''env'')" by simp_all
    from env_rejected [OF nn f] show ?thesis by (simp add: env_handler_def snd_catch_500)
  qed
  from empty iff none show ?thesis by blast
qed

theorem env_accepts_empty_object_witness:
  "env_handler example_proc (\<lambda>c. Inl (AxiosError ''unreachable'' JUndefined)) []
      \<lparr>req_method = ''POST'', req_path = ''/api/env'', x_api_key = Some ''s3cret'',
       req_body = JObj [(''projectId'', JStr ''prj_1''), (''env'', JObj [])]\<rparr>
     = (env_success, [])
   \<and> status (fst (env_handler example_proc (\<lambda>c. Inr JNull) []
      \<lparr>req_method = ''POST'', req_path = ''/api/env'', x_api_key = Some ''s3cret'',
       req_body = JObj [(''projectId'', JStr ''prj_1'')]\<rparr>)) = 400
   \<and> snd (env_handler example_proc (\<lambda>c. Inr JNull) []
      \<lparr>req_method = ''POST'', req_path = ''/api/env'', x_api_key = Some ''s3cret'',
       req_body = JObj [(''projectId'', JStr ''prj_1'')]\<rparr>) = []"
  using env_accepts_empty_object
          [of "\<lparr>req_method = ''POST'', req_path = ''/api/env'', x_api_key = Some ''s3cret'',
                req_body = JObj [(''projectId'', JStr ''prj_1''), (''env'', JObj [])]\<rparr>"
              example_proc "\<lambda>c. Inl (AxiosError ''unreachable'' JUndefined)" "[]"]
        env_accepts_empty_object
          [of "\<lparr>req_method = ''POST'', req_path = ''/api/env'', x_api_key = Some ''s3cret'',
                req_body = JObj [(''projectId'', JStr ''prj_1'')]\<rparr>"
              example_proc "\<lambda>c. Inr JNull" "[]"]
  by (simp add: example_proc_def nullish_def prod_eq_iff)

section \<open>Build errors\<close>

lemma str_includes_sublist: "str_includes s n = sublist n s"
  by (induction s) (simp_all add: sublist_Cons_right)

lemma is_error_event_keeps:
  assumes "event_ok event"
  shows "is_error_event event = Inr (keeps event)"
proof (cases "text_of event")
  case (JStr s)
  with assms show ?thesis
    by (auto simp: is_error_event_def keeps_def event_ok_def get_prop_def Let_def
                   str_includes_sublist text_of_def toLowerCase_def)
next
  case JUndefined
  with assms show ?thesis
    by (auto simp: is_error_event_def keeps_def event_ok_def get_prop_def Let_def text_of_def)
qed (use assms in \<open>simp_all add: event_ok_def is_string_def\<close>)

lemma filterE_total:
  assumes "\<forall>x \<in> set xs. f x = Inr (p x)"
  shows "filterE f xs = Inr (filter p xs)"
  using assms by (induction xs) simp_all

lemma error_entry_truthy:
  "error_entry event =
     JObj [(''timestamp'', field event ''created''), (''message'', message_if_truthy event)]"
  by (simp add: error_entry_def message_if_truthy_def js_or_def text_of_def message_of_def)

text \<open>
  C5 (as amended). For every list of events the platform returns (no event \<^verbatim>\<open>null\<close>, a
  payload text a string where there is one), the errors handler keeps, in order, exactly
  the events whose type is exactly \<^verbatim>\<open>stderr\<close> or whose payload text contains
  \<^verbatim>\<open>error\<close> in any letter case, and maps each to its timestamp and a message: the
  payload text if it is not empty, else the payload message if it is truthy, else
  \<^verbatim>\<open>'Unknown error'\<close>. \<^verbatim>\<open>hasErrors\<close> is true exactly when that list is not empty.
\<close>

theorem errors_extraction:
  assumes "VERCEL_TOKEN proc = Some t" and "t \<noteq> []"
    and "remote (events_call t ident) = Inr (JArr events)"
    and "\<forall>event \<in> set events. event_ok event"
  shows "errors_handler proc remote ident =
           (\<lparr>status = 200,
             body = JObj [(''success'', JBool True),
                          (''errors'', JArr (errors_if_truthy events)),
                          (''hasErrors'', JBool (errors_if_truthy events \<noteq> []))]\<rparr>,
            [events_call t ident])"
proof -
  from assms(4) have "\<forall>event \<in> set events. is_error_event event = Inr (keeps event)"
    by (simp add: is_error_event_keeps)
  then have kept: "filterE is_error_event events = Inr (filter keeps events)"
    by (rule filterE_total)
  have entries: "map error_entry (filter keeps events) = errors_if_truthy events"
    by (simp add: errors_if_truthy_def error_entry_truthy)
  have "errors_try proc remote ident =
          (Inr (json_reply 200 (JObj
             [(''success'', JBool True),
              (''errors'', JArr (errors_if_truthy events)),
              (''hasErrors'', JBool (errors_if_truthy events \<noteq> []))])),
           [events_call t ident])"
    using assms(3) [unfolded events_call_def]
    by (simp add: errors_try_def getVercelClient_token [OF assms(1,2)] events_call_def
                  as_array_def kept entries Let_def)
  then show ?thesis
    by (simp add: errors_handler_def catch_500_def json_reply_def)
qed


theorem errors_extraction_witness:
  "errors_handler example_proc (\<lambda>c. Inr (JArr example_events)) ''dpl_1'' =
     (\<lparr>status = 200,
       body = JObj [(''success'', JBool True),
                    (''errors'', JArr
                       [JObj [(''timestamp'', JUndefined), (''message'', JStr ''boom'')],
                        JObj [(''timestamp'', JNum ''7''), (''message'', JStr ''Build ERROR: exit 1'')]]),
                    (''hasErrors'', JBool True)]\<rparr>,
      [events_call ''tok'' ''dpl_1''])"
proof -
  have tok: "VERCEL_TOKEN example_proc = Some ''tok''" "''tok'' \<noteq> []"
    by (simp_all add: example_proc_def)
  have ans: "(\<lambda>c. Inr (JArr example_events)) (events_call ''tok'' ''dpl_1'') = Inr (JArr example_events)"
    by simp
  have ok: "\<forall>event \<in> set example_events. event_ok event"
    by (simp add: example_events_def event_ok_def nullish_def text_of_def is_string_def)
  have es: "errors_if_truthy example_events =
              [JObj [(''timestamp'', JUndefined), (''message'', JStr ''boom'')],
               JObj [(''timestamp'', JNum ''7''), (''message'', JStr ''Build ERROR: exit 1'')]]"
    by (simp add: errors_if_truthy_def example_events_def keeps_def text_of_def message_of_def
                  message_if_truthy_def toLowerCase_def lower_char_def sublist_code)
  from errors_extraction [OF tok ans ok] show ?thesis
    by (simp add: es)
qed

text \<open>
  C5 as stated fails on a \<^verbatim>\<open>stderr\<close> event whose text is present but empty: the text is
  present, yet the message is the literal \<^verbatim>\<open>'Unknown error'\<close>, not the text.
\<close>

theorem errors_message_counterexample:
  "fst (errors_handler example_proc (\<lambda>c. Inr (JArr [empty_stderr])) ''dpl_1'') =
      \<lparr>status = 200,
       body = JObj [(''success'', JBool True),
                    (''errors'', JArr [JObj [(''timestamp'', JNum ''1''),
                                             (''message'', JStr ''Unknown error'')]]),
                    (''hasErrors'', JBool True)]\<rparr>
   \<and> errors_if_present [empty_stderr] =
      [JObj [(''timestamp'', JNum ''1''), (''message'', JStr [])]]
   \<and> field (body (fst (errors_handler example_proc (\<lambda>c. Inr (JArr [empty_stderr])) ''dpl_1'')))
         ''errors''
       \<noteq> JArr (errors_if_present [empty_stderr])"
proof -
  have k: "is_error_event empty_stderr = Inr True"
    by (simp add: is_error_event_def empty_stderr_def get_prop_def nullish_def)
  have e: "error_entry empty_stderr =
             JObj [(''timestamp'', JNum ''1''), (''message'', JStr ''Unknown error'')]"
    by (simp add: error_entry_def empty_stderr_def js_or_def)
  have h: "errors_handler example_proc (\<lambda>c. Inr (JArr [empty_stderr])) ''dpl_1'' =
      (\<lparr>status = 200,
        body = JObj [(''success'', JBool True),
                     (''errors'', JArr [JObj [(''timestamp'', JNum ''1''),
                                              (''message'', JStr ''Unknown error'')]]),
                     (''hasErrors'', JBool True)]\<rparr>,
       [events_call ''tok'' ''dpl_1''])"
    by (simp add: errors_handler_def errors_try_def catch_500_def json_reply_def
                  getVercelClient_def example_proc_def as_array_def k e Let_def events_call_def)
  have p: "errors_if_present [empty_stderr] =
             [JObj [(''timestamp'', JNum ''1''), (''message'', JStr [])]]"
    by (simp add: errors_if_present_def keeps_def message_if_present_def text_of_def
                  empty_stderr_def)
  show ?thesis by (simp add: h p)
qed

section \<open>URL reconstruction\<close>

lemma scheme_prefixes_https: "scheme_prefixes (''https://'' @ host) = Suc (scheme_prefixes host)"
  by (subst scheme_prefixes.simps) simp

lemma scheme_prefixes_bare: "\<not> prefix ''https://'' host \<Longrightarrow> scheme_prefixes host = 0"
  by (subst scheme_prefixes.simps) simp

lemma https_url_string: "https_url (JStr host) = Inr (''https://'' @ host)"
  by (simp add: https_url_def)

lemma status_url:
  assumes "VERCEL_TOKEN proc = Some t" and "t \<noteq> []"
    and "remote (status_call t ident) = Inr deployment"
    and "field deployment ''url'' = JStr host"
  shows "field (field (body (fst (status_handler proc remote ident))) ''deployment'') ''url''
           = JStr (''https://'' @ host)"
proof -
  from assms(4) have "\<not> nullish deployment" by (auto simp: nullish_def)
  with assms(3) [unfolded status_call_def] assms(4) show ?thesis
    by (simp add: status_handler_def status_try_def getVercelClient_token [OF assms(1,2)]
                  get_prop_def catch_500_def json_reply_def Let_def https_url_string
             del: append.simps)
qed

lemma deploy_url:
  assumes "truthy (field (req_body req) ''name'')" and "truthy (field (req_body req) ''gitSource'')"
    and "truthy (field (field (req_body req) ''gitSource'') ''repo'')"
    and "snd (deploy_handler proc remote req) = [c]"
    and "remote c = Inr data" and "field data ''url'' = JStr host"
  shows "field (field (body (fst (deploy_handler proc remote req))) ''deployment'') ''url''
           = JStr (''https://'' @ host)"
proof -
  from assms(6) have "\<not> nullish data" by (auto simp: nullish_def)
  with assms(4-6) show ?thesis
    by (auto simp add: deploy_handler_def deploy_accepted [OF assms(1-3)] get_prop_def
                       catch_500_def json_reply_def https_url_string
             simp del: append.simps split: sum.splits)
qed

lemma latest_deployment_url:
  assumes "field d ''url'' = JStr host"
  shows "\<exists>entry. latest_deployment d = Inr entry
           \<and> field entry ''url'' = JStr (''https://'' @ host)"
proof -
  from assms have "\<not> nullish d" by (auto simp: nullish_def)
  with assms show ?thesis
    by (simp add: latest_deployment_def get_prop_def https_url_string del: append.simps)
qed


lemma mapE_nth:
  assumes "mapE f xs = Inr ys"
  shows "length ys = length xs \<and> (\<forall>i < length xs. f (xs ! i) = Inr (ys ! i))"
  using assms
proof (induction xs arbitrary: ys)
  case Nil
  then show ?case by simp
next
  case (Cons x xs)
  from Cons.prems obtain y ys' where y: "f x = Inr y" and ys': "mapE f xs = Inr ys'"
    and ys: "ys = y # ys'"
    by (auto split: sum.splits)
  from Cons.IH [OF ys'] y ys show ?case
    by (auto simp: nth_Cons split: nat.splits)
qed

lemma latest_deployment_entry_url:
  assumes "latest_deployment d = Inr entry" and "field d ''url'' = JStr host"
  shows "field entry ''url'' = JStr (''https://'' @ host)"
  using latest_deployment_url [OF assms(2)] assms(1) by auto

lemma latestDeployments_url:
  assumes "latestDeployments project = Inr lds"
    and "field project ''latestDeployments'' = JArr ds"
    and "j < length ds" and "field (ds ! j) ''url'' = JStr host"
  shows "field (elements lds ! j) ''url'' = JStr (''https://'' @ host)"
proof -
  from assms(1,2) obtain ys where ys: "mapE latest_deployment ds = Inr ys" and lds: "lds = JArr ys"
    by (auto simp: latestDeployments_def as_array_def nullish_def Let_def split: sum.splits)
  from mapE_nth [OF ys] assms(3) have "latest_deployment (ds ! j) = Inr (ys ! j)" by simp
  from latest_deployment_entry_url [OF this assms(4)] lds show ?thesis
    by (simp add: elements_def)
qed

lemma project_entry_deployments:
  assumes "project_entry project = Inr entry"
  shows "latestDeployments project = Inr (field entry ''latestDeployments'')"
  using assms by (auto simp: project_entry_def split: sum.splits)

lemma projects_listing:
  assumes "VERCEL_TOKEN proc = Some t" and "t \<noteq> []"
    and "remote (projects_call t) = Inr data" and "field data ''projects'' = JArr ps"
    and "status (fst (projects_handler proc remote)) = 200"
  shows "\<exists>projects. mapE project_entry ps = Inr projects
           \<and> field (body (fst (projects_handler proc remote))) ''projects'' = JArr projects"
proof -
  from assms(4) have nn: "\<not> nullish data" by (auto simp: nullish_def)
  have tr: "projects_try proc remote =
          (case mapE project_entry ps of
             Inl e \<Rightarrow> (Inl e, [projects_call t])
           | Inr projects \<Rightarrow>
               (Inr (json_reply 200 (JObj
                  [(''success'', JBool True), (''projects'', JArr projects)])),
                [projects_call t]))"
    using assms(3) [unfolded projects_call_def] assms(4) nn
    by (simp add: projects_try_def getVercelClient_token [OF assms(1,2)] projects_call_def
                  get_prop_def as_array_def Let_def split: sum.splits)
  show ?thesis
  proof (cases "mapE project_entry ps")
    case (Inl e)
    with assms(5) show ?thesis
      by (simp add: projects_handler_def catch_500_def tr failed_def json_reply_def)
  next
    case (Inr projects)
    then show ?thesis
      by (simp add: projects_handler_def catch_500_def tr json_reply_def)
  qed
qed

lemma projects_url:
  assumes "VERCEL_TOKEN proc = Some t" and "t \<noteq> []"
    and "remote (projects_call t) = Inr data" and "field data ''projects'' = JArr ps"
    and "status (fst (projects_handler proc remote)) = 200"
    and "i < length ps" and "field (ps ! i) ''latestDeployments'' = JArr ds"
    and "j < length ds" and "field (ds ! j) ''url'' = JStr host"
  shows "field (elements (field (elements (field (body (fst (projects_handler proc remote)))
                                    ''projects'') ! i) ''latestDeployments'') ! j) ''url''
           = JStr (''https://'' @ host)"
proof -
  from projects_listing [OF assms(1-5)] obtain projects
    where m: "mapE project_entry ps = Inr projects"
      and b: "field (body (fst (projects_handler proc remote))) ''projects'' = JArr projects"
    by blast
  from mapE_nth [OF m] assms(6) have "project_entry (ps ! i) = Inr (projects ! i)" by simp
  from project_entry_deployments [OF this]
  have "latestDeployments (ps ! i) = Inr (field (projects ! i) ''latestDeployments'')" .
  from latestDeployments_url [OF this assms(7-9)] b show ?thesis
    by (simp add: elements_def)
qed


text \<open>
  C8. For every host string the platform returns (a bare host, one that does not itself
  begin with the scheme prefix), the URL the handlers produce is \<^verbatim>\<open>https://\<close> followed
  by the host: it has exactly one scheme prefix, never a doubled one. This holds for the
  URL in the answer of the status handler, in the answer of the deploy handler, and of
  every deployment of every project in the answer of the projects listing.
\<close>

theorem url_exactly_one_prefix:
  assumes "\<not> prefix ''https://'' host"
  shows "scheme_prefixes (''https://'' @ host) = 1
   \<and> \<not> prefix (''https://'' @ ''https://'') (''https://'' @ host)
   \<and> (VERCEL_TOKEN proc = Some t \<and> t \<noteq> [] \<and> remote (status_call t ident) = Inr deployment
        \<and> field deployment ''url'' = JStr host
      \<longrightarrow> field (field (body (fst (status_handler proc remote ident))) ''deployment'') ''url''
            = JStr (''https://'' @ host))
   \<and> (truthy (field (req_body req) ''name'') \<and> truthy (field (req_body req) ''gitSource'')
        \<and> truthy (field (field (req_body req) ''gitSource'') ''repo'')
        \<and> snd (deploy_handler proc remote req) = [c] \<and> remote c = Inr data
        \<and> field data ''url'' = JStr host
      \<longrightarrow> field (field (body (fst (deploy_handler proc remote req))) ''deployment'') ''url''
            = JStr (''https://'' @ host))
   \<and> (VERCEL_TOKEN proc = Some t \<and> t \<noteq> [] \<and> remote (projects_call t) = Inr listing
        \<and> field listing ''projects'' = JArr ps
        \<and> status (fst (projects_handler proc remote)) = 200
        \<and> i < length ps \<and> field (ps ! i) ''latestDeployments'' = JArr ds
        \<and> j < length ds \<and> field (ds ! j) ''url'' = JStr host
      \<longrightarrow> field (elements (field (elements (field (body (fst (projects_handler proc remote)))
                                       ''projects'') ! i) ''latestDeployments'') ! j) ''url''
            = JStr (''https://'' @ host))"
proof (intro conjI impI)
  show "scheme_prefixes (''https://'' @ host) = 1"
    using scheme_prefixes_bare [OF assms] by (simp only: scheme_prefixes_https One_nat_def)
  show "\<not> prefix (''https://'' @ ''https://'') (''https://'' @ host)"
    using assms by simp
next
  assume "VERCEL_TOKEN proc = Some t \<and> t \<noteq> [] \<and> remote (status_call t ident) = Inr deployment
             \<and> field deployment ''url'' = JStr host"
  then show "field (field (body (fst (status_handler proc remote ident))) ''deployment'') ''url''
          = JStr (''https://'' @ host)"
    using status_url [of proc t remote ident deployment host] by blast
next
  assume "truthy (field (req_body req) ''name'') \<and> truthy (field (req_body req) ''gitSource'')
        \<and> truthy (field (field (req_body req) ''gitSource'') ''repo'')
        \<and> snd (deploy_handler proc remote req) = [c] \<and> remote c = Inr data
        \<and> field data ''url'' = JStr host"
  then show "field (field (body (fst (deploy_handler proc remote req))) ''deployment'') ''url''
          = JStr (''https://'' @ host)"
    using deploy_url [of req proc remote c data host] by blast
next
  assume "VERCEL_TOKEN proc = Some t \<and> t \<noteq> [] \<and> remote (projects_call t) = Inr listing
        \<and> field listing ''projects'' = JArr ps
        \<and> status (fst (projects_handler proc remote)) = 200
        \<and> i < length ps \<and> field (ps ! i) ''latestDeployments'' = JArr ds
        \<and> j < length ds \<and> field (ds ! j) ''url'' = JStr host"
  then show "field (elements (field (elements (field (body (fst (projects_handler proc remote)))
                                       ''projects'') ! i) ''latestDeployments'') ! j) ''url''
            = JStr (''https://'' @ host)"
    using projects_url [of proc t remote listing ps i ds j host] by blast
qed

theorem url_exactly_one_prefix_witness:
  "scheme_prefixes ''https://my-app.vercel.app'' = 1
   \<and> field (field (body (fst (status_handler example_proc
        (\<lambda>c. Inr (JObj [(''id'', JStr ''dpl_1''), (''url'', JStr ''my-app.vercel.app'')])) ''dpl_1'')))
        ''deployment'') ''url'' = JStr ''https://my-app.vercel.app''
   \<and> field (field (body (fst (deploy_handler example_proc
        (\<lambda>c. Inr (JObj [(''id'', JStr ''dpl_1''), (''url'', JStr ''my-app.vercel.app'')]))
        example_deploy))) ''deployment'') ''url'' = JStr ''https://my-app.vercel.app''
   \<and> field (elements (field (elements (field (body (fst (projects_handler example_proc
        (\<lambda>c. Inr example_listing)))) ''projects'') ! 0) ''latestDeployments'') ! 1) ''url''
       = JStr ''https://my-app.vercel.app''"
proof -
  let ?answer = "JObj [(''id'', JStr ''dpl_1''), (''url'', JStr ''my-app.vercel.app'')]"
  let ?sent = "vercel_client ''tok'' ''POST'' ''/v13/deployments''
        (JObj [(''name'', JStr ''app''),
               (''gitSource'', JObj [(''type'', JStr ''github''), (''repo'', JStr ''org/repo''),
                                     (''ref'', JStr ''main'')]),
               (''target'', JStr ''preview''),
               (''env'', JObj [(''API_KEY'', JStr ''secret'')])])"
  let ?ds = "[JObj [(''id'', JStr ''dpl_2''), (''url'', JStr ''app-two.vercel.app'')],
              JObj [(''id'', JStr ''dpl_1''), (''url'', JStr ''my-app.vercel.app'')]]"
  let ?ps = "[JObj [(''id'', JStr ''prj_1''), (''name'', JStr ''app''),
                    (''latestDeployments'', JArr ?ds)]]"
  have bare: "\<not> prefix ''https://'' ''my-app.vercel.app''" by simp
  have sent: "snd (deploy_handler example_proc (\<lambda>c. Inr ?answer) example_deploy) = [?sent]"
    by (simp add: deploy_handler_def snd_catch_500 deploy_try_def destructure_def nullish_def
                  example_deploy_def example_proc_def getVercelClient_def deploymentData_def
                  assign_def https_url_def js_or_def get_prop_def Let_def)
  have listed: "status (fst (projects_handler example_proc (\<lambda>c. Inr example_listing))) = 200"
    by (simp add: projects_handler_def projects_try_def catch_500_def json_reply_def
                  example_proc_def example_listing_def getVercelClient_def get_prop_def
                  nullish_def as_array_def project_entry_def latestDeployments_def
                  latest_deployment_def https_url_def Let_def)
  note T = url_exactly_one_prefix
    [OF bare, of example_proc "''tok''" "\<lambda>c. Inr ?answer" "''dpl_1''" ?answer
        example_deploy ?sent ?answer]
  note P = url_exactly_one_prefix
    [OF bare, of example_proc "''tok''" "\<lambda>c. Inr example_listing" _ _ _ _ _
        example_listing ?ps 0 ?ds 1]
  from T have 1: "scheme_prefixes ''https://my-app.vercel.app'' = 1"
    by simp
  from T have 2: "field (field (body (fst (status_handler example_proc (\<lambda>c. Inr ?answer) ''dpl_1'')))
        ''deployment'') ''url'' = JStr ''https://my-app.vercel.app''"
    by (simp add: example_proc_def)
  from T sent have 3: "field (field (body (fst (deploy_handler example_proc
        (\<lambda>c. Inr ?answer) example_deploy))) ''deployment'') ''url'' = JStr ''https://my-app.vercel.app''"
    by (simp add: example_deploy_def)
  from P listed have 4: "field (elements (field (elements (field (body (fst (projects_handler
        example_proc (\<lambda>c. Inr example_listing)))) ''projects'') ! 0) ''latestDeployments'') ! 1) ''url''
       = JStr ''https://my-app.vercel.app''"
    by (simp add: example_proc_def example_listing_def)
  from 1 2 3 4 show ?thesis by simp
qed

section \<open>Folding of the environment variables\<close>

lemma fst_proto_setter: "fst (proto_setter acc v) = fst acc"
  by (cases v) (simp_all add: proto_setter_def)

lemma assign_proto:
  assumes "''__proto__'' \<notin> fst ` set (fst acc)"
  shows "fst (assign acc ''__proto__'' v) = fst acc
         \<or> fst (assign acc ''__proto__'' v) = fst acc @ [(''__proto__'', v)]"
  using assms
  by (simp add: assign_def fst_proto_setter split: option.splits json.splits)

lemma map_of_assign:
  assumes "k \<noteq> ''__proto__''"
  shows "map_of (fst (assign acc k' v)) k = (if k' = k then Some v else map_of (fst acc) k)"
proof (cases "k' \<noteq> ''__proto__'' \<or> k' \<in> fst ` set (fst acc)")
  case True
  then show ?thesis by (simp add: assign_def update_conv')
next
  case False
  then have k': "k' = ''__proto__''" and "''__proto__'' \<notin> fst ` set (fst acc)" by simp_all
  from assign_proto [OF this(2), of v] assms show ?thesis
    unfolding k' by (auto simp: map_add_def split: option.splits)
qed

lemma last_value_Cons:
  "last_value k (env # envs) =
     (case last_value k envs of
        Some v \<Rightarrow> Some v
      | None \<Rightarrow> if to_str (field env ''key'') = Inr k then Some (field env ''value'') else None)"
  by (simp add: last_value_def split: list.splits)

text \<open>
  For every key other than \<^verbatim>\<open>__proto__\<close>, the fold is a last-write-wins mapping: the
  accumulator holds, under the key, the value of the last entry with that key.
\<close>

lemma reduce_env_last_wins:
  assumes "reduce_env acc envs = Inr acc'" and "k \<noteq> ''__proto__''"
  shows "map_of (fst acc') k =
           (case last_value k envs of None \<Rightarrow> map_of (fst acc) k | Some v \<Rightarrow> Some v)"
  using assms(1)
proof (induction envs arbitrary: acc)
  case Nil
  then show ?case by (simp add: last_value_def)
next
  case (Cons env envs)
  from Cons.prems obtain key where key: "to_str (field env ''key'') = Inr key"
    and rest: "reduce_env (assign acc key (field env ''value'')) envs = Inr acc'"
    by (auto simp: get_prop_def split: if_splits sum.splits)
  from Cons.IH [OF rest] map_of_assign [OF assms(2)] key show ?case
    by (auto simp: last_value_Cons split: option.splits)
qed

text \<open>
  C7. The fold of \<^verbatim>\<open>envVariables\<close> into one mapping keeps the last value of a repeated
  key, but not for the key \<^verbatim>\<open>__proto__\<close>: an assignment to that key of the accumulator
  \<^verbatim>\<open>{}\<close> reaches the prototype accessor and stores nothing. In the payload sent for
  the request below, \<^verbatim>\<open>A\<close> has its last value and \<^verbatim>\<open>__proto__\<close>, whose last value
  is \<^verbatim>\<open>b\<close>, is missing.
\<close>

theorem env_fold_drops_proto:
  "snd (deploy_handler example_proc (\<lambda>c. Inr (JObj [(''id'', JStr ''dpl_1'')])) example_proto_deploy) =
     [vercel_client ''tok'' ''POST'' ''/v13/deployments''
        (JObj [(''name'', JStr ''app''),
               (''gitSource'', JObj [(''type'', JStr ''github''), (''repo'', JStr ''org/repo''),
                                     (''ref'', JStr ''main'')]),
               (''target'', JStr ''preview''),
               (''env'', JObj [(''A'', JStr ''2'')])])]
   \<and> last_value ''__proto__'' [JObj [(''key'', JStr ''A''), (''value'', JStr ''1'')],
             JObj [(''key'', JStr ''__proto__''), (''value'', JStr ''a'')],
             JObj [(''key'', JStr ''A''), (''value'', JStr ''2'')],
             JObj [(''key'', JStr ''__proto__''), (''value'', JStr ''b'')]] = Some (JStr ''b'')"
proof -
  have "snd (deploy_handler example_proc (\<lambda>c. Inr (JObj [(''id'', JStr ''dpl_1'')])) example_proto_deploy) =
     [vercel_client ''tok'' ''POST'' ''/v13/deployments''
        (JObj [(''name'', JStr ''app''),
               (''gitSource'', JObj [(''type'', JStr ''github''), (''repo'', JStr ''org/repo''),
                                     (''ref'', JStr ''main'')]),
               (''target'', JStr ''preview''),
               (''env'', JObj [(''A'', JStr ''2'')])])]"
    by (simp add: deploy_handler_def snd_catch_500 deploy_try_def destructure_def nullish_def
                  example_proto_deploy_def example_proc_def getVercelClient_def deploymentData_def
                  assign_def proto_setter_def https_url_def js_or_def get_prop_def Let_def)
  moreover have "last_value ''__proto__'' [JObj [(''key'', JStr ''A''), (''value'', JStr ''1'')],
             JObj [(''key'', JStr ''__proto__''), (''value'', JStr ''a'')],
             JObj [(''key'', JStr ''A''), (''value'', JStr ''2'')],
             JObj [(''key'', JStr ''__proto__''), (''value'', JStr ''b'')]] = Some (JStr ''b'')"
    by (simp add: last_value_def)
  ultimately show ?thesis by simp
qed

end
